theory Spec2Isabelle
  imports Complex_Main "HOL-Library.AList"
begin

section \<open>Values, exceptions and the clock\<close>

text \<open>
  Token payloads, response bodies and the values a decoded token hands to the Python code
  are JSON values. Python's \<^verbatim>\<open>None\<close> is \<open>JNull\<close>. A Python \<^verbatim>\<open>float\<close> timestamp
  (\<^verbatim>\<open>datetime.timestamp()\<close>, seconds since the epoch with the microseconds as fraction) is
  kept as the exact number of seconds: the code only compares timestamps, adds whole
  numbers of seconds to them and divides a difference by 60. A dict is an association list read through \<open>map_of\<close>.
\<close>

datatype json =
    JNull
  | JBool bool
  | JInt int
  | JFloat real
  | JStr string
  | JArr "json list"
  | JObj "(string \<times> json) list"

type_synonym claims = "(string \<times> json) list"

type_synonym timestamp = real

text \<open>
  Exceptions are values. \<open>HTTPException\<close> carries FastAPI's status code and detail.
  \<open>ExpiredSignatureError\<close> is python-jose's subclass of \<open>JWTError\<close>; its other subclasses
  (\<^verbatim>\<open>JWTClaimsError\<close>) are never told apart by this code and are \<open>JWTError\<close> here.
\<close>

datatype exn =
    HTTPException (status_code: int) (detail: string)
  | JWTError
  | ExpiredSignatureError
  | TypeError
  | ValueError
  | KeyError
  | AttributeError
  | ValidationError
  | MultipleResultsFound
  | IntegrityError

text \<open>\<^verbatim>\<open>except JWTError\<close> catches the class and its subclasses.\<close>

fun is_JWTError :: "exn \<Rightarrow> bool" where
  "is_JWTError JWTError = True"
| "is_JWTError ExpiredSignatureError = True"
| "is_JWTError _ = False"

text \<open>Python truthiness (\<^verbatim>\<open>not x\<close>, \<^verbatim>\<open>if x:\<close>) of a JSON value.\<close>

fun truthy :: "json \<Rightarrow> bool" where
  "truthy JNull = False"
| "truthy (JBool b) = b"
| "truthy (JInt i) = (i \<noteq> 0)"
| "truthy (JFloat r) = (r \<noteq> 0)"
| "truthy (JStr s) = (s \<noteq> [])"
| "truthy (JArr xs) = (xs \<noteq> [])"
| "truthy (JObj kvs) = (kvs \<noteq> [])"

text \<open>\<^verbatim>\<open>d.get(k)\<close>: the value, or \<^verbatim>\<open>None\<close>. \<^verbatim>\<open>d[k]\<close>: the value, or \<^verbatim>\<open>KeyError\<close>.\<close>

definition dict_get :: "claims \<Rightarrow> string \<Rightarrow> json" where
  "dict_get d k = (case map_of d k of None \<Rightarrow> JNull | Some v \<Rightarrow> v)"

definition dict_item :: "claims \<Rightarrow> string \<Rightarrow> exn + json" where
  "dict_item d k = (case map_of d k of None \<Rightarrow> Inl KeyError | Some v \<Rightarrow> Inr v)"

text \<open>
  The number a value stands for in a comparison or a sum with a float
  (\<^verbatim>\<open>now_ts > max_exp_ts\<close>, \<^verbatim>\<open>issued_at_ts + 3600.0\<close>): ints, floats and bools are numbers,
  anything else raises \<^verbatim>\<open>TypeError\<close> (\<open>None\<close> here).
\<close>

fun py_num :: "json \<Rightarrow> real option" where
  "py_num (JInt i) = Some (of_int i)"
| "py_num (JFloat r) = Some r"
| "py_num (JBool b) = Some (if b then 1 else 0)"
| "py_num _ = None"

text \<open>\<^verbatim>\<open>int(x)\<close> of a float truncates towards zero.\<close>

definition trunc :: "real \<Rightarrow> int" where
  "trunc r = (if 0 \<le> r then \<lfloor>r\<rfloor> else \<lceil>r\<rceil>)"

text \<open>
  \<^verbatim>\<open>int(s)\<close> of a string: an optional sign and decimal digits (the surrounding white space
  and the digit-group underscores Python also accepts are left out).
\<close>

definition is_digit :: "char \<Rightarrow> bool" where
  "is_digit c = (48 \<le> (of_char c :: nat) \<and> (of_char c :: nat) \<le> 57)"

definition digits_value :: "string \<Rightarrow> int" where
  "digits_value s = foldl (\<lambda>acc c. 10 * acc + (int (of_char c) - 48)) 0 s"

definition int_literal :: "string \<Rightarrow> int option" where
  "int_literal s =
     (case s of
        [] \<Rightarrow> None
      | c # cs \<Rightarrow>
          if (c = CHR ''-'' \<or> c = CHR ''+'') \<and> cs \<noteq> [] \<and> list_all is_digit cs
          then Some (if c = CHR ''-'' then - digits_value cs else digits_value cs)
          else if list_all is_digit (c # cs) then Some (digits_value (c # cs))
          else None)"

fun py_int :: "json \<Rightarrow> exn + int" where
  "py_int (JInt i) = Inr i"
| "py_int (JFloat r) = Inr (trunc r)"
| "py_int (JBool b) = Inr (if b then 1 else 0)"
| "py_int (JStr s) = (case int_literal s of None \<Rightarrow> Inl ValueError | Some i \<Rightarrow> Inr i)"
| "py_int _ = Inl TypeError"

section \<open>Configuration and the JWT library\<close>

text \<open>
  The environment of a run: the two settings \<^verbatim>\<open>app.py\<close> reads with \<^verbatim>\<open>os.getenv\<close>
  (\<^verbatim>\<open>src/middleware.py\<close> reads the same \<^verbatim>\<open>SECRET_KEY\<close>), the
  HMAC-SHA256 of the JWT library (key and payload to signature) and the address check of
  pydantic's \<^verbatim>\<open>EmailStr\<close>. The theorems hold for every environment.
\<close>

record env =
  SECRET_KEY :: string
  SECURE_COOKIE :: bool
  hs256 :: "string \<Rightarrow> claims \<Rightarrow> string"
  validate_email :: "string \<Rightarrow> bool"

definition ALGORITHM :: string where
  "ALGORITHM = ''HS256''"

definition ACCESS_TOKEN_EXPIRE_HOURS :: int where
  "ACCESS_TOKEN_EXPIRE_HOURS = 24"

definition REFRESH_INTERVAL_HOURS :: int where
  "REFRESH_INTERVAL_HOURS = 1"

definition MAX_TOKEN_LIFETIME_DAYS :: int where
  "MAX_TOKEN_LIFETIME_DAYS = 7"

definition COOKIE_NAME :: string where
  "COOKIE_NAME = ''access_token''"

text \<open>\<^verbatim>\<open>timedelta(hours=h).total_seconds()\<close> and \<^verbatim>\<open>timedelta(days=d).total_seconds()\<close>.\<close>

definition hours :: "int \<Rightarrow> real" where
  "hours h = of_int (3600 * h)"

definition days :: "int \<Rightarrow> real" where
  "days d = of_int (86400 * d)"

text \<open>
  A cookie value is a string. What the code does with it depends only on how the JWT
  library reads it: as a compact JWS with a header algorithm, a JSON-object payload and a
  signature, or as a string that is no such thing (\<open>Unparsable\<close>, which carries the
  string: the empty one is Python-falsy).
\<close>

datatype token =
    Unparsable string
  | JWS (tok_alg: string) (tok_claims: claims) (tok_sig: string)

text \<open>
  \<^verbatim>\<open>jwt.encode(claims, key, algorithm=ALGORITHM)\<close>. The library turns a \<^verbatim>\<open>datetime\<close> under
  \<^verbatim>\<open>exp\<close>, \<^verbatim>\<open>iat\<close> or \<^verbatim>\<open>nbf\<close> into whole seconds (\<^verbatim>\<open>timegm(utctimetuple())\<close>) before it
  signs; the callers below pass those claims already converted.
\<close>

definition jwt_encode :: "env \<Rightarrow> claims \<Rightarrow> string \<Rightarrow> token" where
  "jwt_encode e c key = JWS ALGORITHM c (hs256 e key c)"

text \<open>The library's signature check: \<^verbatim>\<open>jws.verify(token, key, algorithms)\<close>.\<close>

definition jws_verify :: "env \<Rightarrow> token \<Rightarrow> string \<Rightarrow> exn + claims" where
  "jws_verify e t key =
     (case t of
        Unparsable s \<Rightarrow> Inl JWTError
      | JWS alg c s \<Rightarrow> if alg = ALGORITHM \<and> s = hs256 e key c then Inr c else Inl JWTError)"

text \<open>
  The library's claim validation, in its order: \<^verbatim>\<open>iat\<close>, \<^verbatim>\<open>nbf\<close>, \<^verbatim>\<open>exp\<close>, \<^verbatim>\<open>aud\<close>,
  \<^verbatim>\<open>iss\<close>, \<^verbatim>\<open>sub\<close>, \<^verbatim>\<open>jti\<close>, \<^verbatim>\<open>at_hash\<close>, as called with no audience, issuer, subject or
  access token. It reads the clock in whole seconds. A \<^verbatim>\<open>ValueError\<close> of \<^verbatim>\<open>int()\<close> becomes
  \<open>JWTError\<close>; a \<^verbatim>\<open>TypeError\<close> of \<^verbatim>\<open>int()\<close> is not caught by the library.
\<close>

definition int_claim :: "json \<Rightarrow> exn + int" where
  "int_claim v =
     (case py_int v of
        Inl x \<Rightarrow> Inl (if x = ValueError then JWTError else x)
      | Inr i \<Rightarrow> Inr i)"

definition validate_iat :: "claims \<Rightarrow> exn + unit" where
  "validate_iat c =
     (case map_of c ''iat'' of
        None \<Rightarrow> Inr ()
      | Some v \<Rightarrow> (case int_claim v of Inl x \<Rightarrow> Inl x | Inr i \<Rightarrow> Inr ()))"

definition validate_nbf :: "timestamp \<Rightarrow> claims \<Rightarrow> exn + unit" where
  "validate_nbf now c =
     (case map_of c ''nbf'' of
        None \<Rightarrow> Inr ()
      | Some v \<Rightarrow>
          (case int_claim v of
             Inl x \<Rightarrow> Inl x
           | Inr nbf \<Rightarrow> if nbf > \<lfloor>now\<rfloor> then Inl JWTError else Inr ()))"

definition validate_exp :: "timestamp \<Rightarrow> claims \<Rightarrow> exn + unit" where
  "validate_exp now c =
     (case map_of c ''exp'' of
        None \<Rightarrow> Inr ()
      | Some v \<Rightarrow>
          (case int_claim v of
             Inl x \<Rightarrow> Inl x
           | Inr ex \<Rightarrow> if ex < \<lfloor>now\<rfloor> then Inl ExpiredSignatureError else Inr ()))"

definition validate_aud :: "claims \<Rightarrow> exn + unit" where
  "validate_aud c = (case map_of c ''aud'' of None \<Rightarrow> Inr () | Some v \<Rightarrow> Inl JWTError)"

definition validate_str_claim :: "string \<Rightarrow> claims \<Rightarrow> exn + unit" where
  "validate_str_claim k c =
     (case map_of c k of
        None \<Rightarrow> Inr ()
      | Some (JStr s) \<Rightarrow> Inr ()
      | Some v \<Rightarrow> Inl JWTError)"

definition validate_at_hash :: "claims \<Rightarrow> exn + unit" where
  "validate_at_hash c = (case map_of c ''at_hash'' of None \<Rightarrow> Inr () | Some v \<Rightarrow> Inl JWTError)"

fun first_error :: "(exn + unit) list \<Rightarrow> exn + unit" where
  "first_error [] = Inr ()"
| "first_error (Inl x # rs) = Inl x"
| "first_error (Inr u # rs) = first_error rs"

definition validate_claims :: "timestamp \<Rightarrow> bool \<Rightarrow> claims \<Rightarrow> exn + unit" where
  "validate_claims now verify_exp c =
     first_error
       [validate_iat c,
        validate_nbf now c,
        (if verify_exp then validate_exp now c else Inr ()),
        validate_aud c,
        validate_str_claim ''sub'' c,
        validate_str_claim ''jti'' c,
        validate_at_hash c]"

text \<open>
  \<^verbatim>\<open>jwt.decode(token, key, algorithms=[ALGORITHM], options={"verify_exp": verify_exp})\<close>:
  the signature first, then the claims.
\<close>

definition jwt_decode :: "env \<Rightarrow> timestamp \<Rightarrow> token \<Rightarrow> string \<Rightarrow> bool \<Rightarrow> exn + claims" where
  "jwt_decode e now t key verify_exp =
     (case jws_verify e t key of
        Inl x \<Rightarrow> Inl x
      | Inr c \<Rightarrow> (case validate_claims now verify_exp c of Inl x \<Rightarrow> Inl x | Inr u \<Rightarrow> Inr c))"

section \<open>The demo service: \<^verbatim>\<open>app.py\<close>\<close>

subsection \<open>Data models and the user store\<close>

record UserPayload =
  userId :: int
  username :: string
  fullname :: string
  title :: string
  email :: string
  roles :: "int list"

definition users_db :: "string \<Rightarrow> UserPayload option" where
  "users_db =
     map_of
       [(''admin_user'',
         \<lparr>userId = 101, username = ''admin_user'', fullname = ''Admin Von Admin'',
          title = ''System Administrator'', email = ''admin@example.com'', roles = [1, 2]\<rparr>),
        (''regular_user'',
         \<lparr>userId = 202, username = ''regular_user'', fullname = ''Reginald User'',
          title = ''Standard User'', email = ''user@example.com'', roles = [2]\<rparr>)]"

text \<open>\<^verbatim>\<open>user.model_dump()\<close>: the fields as a dict, in declaration order.\<close>

definition model_dump :: "UserPayload \<Rightarrow> claims" where
  "model_dump u =
     [(''userId'', JInt (userId u)),
      (''username'', JStr (username u)),
      (''fullname'', JStr (fullname u)),
      (''title'', JStr (title u)),
      (''email'', JStr (email u)),
      (''roles'', JArr (map JInt (roles u)))]"

text \<open>
  \<^verbatim>\<open>UserPayload(**payload)\<close>: pydantic's validation. Every field is required and keys that
  are no field are ignored. An \<^verbatim>\<open>int\<close> field takes an int, a bool, a float without
  fraction or a string of digits; a \<^verbatim>\<open>str\<close> field takes a string only; the address must
  pass the \<^verbatim>\<open>EmailStr\<close> check.
\<close>

fun lax_int :: "json \<Rightarrow> int option" where
  "lax_int (JInt i) = Some i"
| "lax_int (JBool b) = Some (if b then 1 else 0)"
| "lax_int (JFloat r) = (if r = of_int \<lfloor>r\<rfloor> then Some \<lfloor>r\<rfloor> else None)"
| "lax_int (JStr s) = int_literal s"
| "lax_int _ = None"

fun int_field :: "json option \<Rightarrow> int option" where
  "int_field None = None"
| "int_field (Some v) = lax_int v"

fun str_field :: "json option \<Rightarrow> string option" where
  "str_field (Some (JStr s)) = Some s"
| "str_field _ = None"

fun int_list_field :: "json option \<Rightarrow> int list option" where
  "int_list_field (Some (JArr vs)) = those (map lax_int vs)"
| "int_list_field _ = None"

definition UserPayload_validate :: "env \<Rightarrow> claims \<Rightarrow> exn + UserPayload" where
  "UserPayload_validate e payload =
     (case int_field (map_of payload ''userId'') of None \<Rightarrow> Inl ValidationError | Some uid \<Rightarrow>
      case str_field (map_of payload ''username'') of None \<Rightarrow> Inl ValidationError | Some un \<Rightarrow>
      case str_field (map_of payload ''fullname'') of None \<Rightarrow> Inl ValidationError | Some fn \<Rightarrow>
      case str_field (map_of payload ''title'') of None \<Rightarrow> Inl ValidationError | Some ti \<Rightarrow>
      case str_field (map_of payload ''email'') of None \<Rightarrow> Inl ValidationError | Some em \<Rightarrow>
      case int_list_field (map_of payload ''roles'') of None \<Rightarrow> Inl ValidationError | Some rs \<Rightarrow>
      if validate_email e em
      then Inr \<lparr>userId = uid, username = un, fullname = fn, title = ti, email = em, roles = rs\<rparr>
      else Inl ValidationError)"

subsection \<open>Issuing and verifying\<close>

text \<open>
  \<^verbatim>\<open>create_jwt_token(user, existing_max_exp=None)\<close> at clock reading \<open>now\<close>. The \<^verbatim>\<open>iat\<close> and
  \<^verbatim>\<open>exp\<close> datetimes are encoded in whole seconds, \<^verbatim>\<open>max_exp\<close> is the float timestamp or the
  value handed in.
\<close>

definition create_jwt_token :: "env \<Rightarrow> timestamp \<Rightarrow> UserPayload \<Rightarrow> json \<Rightarrow> token" where
  "create_jwt_token e now user existing_max_exp =
     (let access_expire = now + hours ACCESS_TOKEN_EXPIRE_HOURS;
          max_expire_ts =
            (if existing_max_exp = JNull
             then JFloat (max access_expire (now + days MAX_TOKEN_LIFETIME_DAYS))
             else existing_max_exp);
          to_encode =
            [(''sub'', JStr (username user)),
             (''iat'', JInt \<lfloor>now\<rfloor>),
             (''exp'', JInt \<lfloor>access_expire\<rfloor>),
             (''max_exp'', max_expire_ts)] @ model_dump user
      in jwt_encode e to_encode (SECRET_KEY e))"

definition credentials_exception :: exn where
  "credentials_exception = HTTPException 401 ''Could not validate credentials''"

definition token_expired_exception :: exn where
  "token_expired_exception = HTTPException 401 ''Token has expired''"

definition max_lifetime_exception :: exn where
  "max_lifetime_exception =
     HTTPException 401 ''Maximum token lifetime exceeded. Please log in again.''"

text \<open>The \<^verbatim>\<open>try\<close> block of \<^verbatim>\<open>verify_jwt_token\<close>, with what it raises.\<close>

definition verify_try :: "env \<Rightarrow> timestamp \<Rightarrow> token \<Rightarrow> exn + UserPayload" where
  "verify_try e now t =
     (case jwt_decode e now t (SECRET_KEY e) True of
        Inl x \<Rightarrow> Inl x
      | Inr payload \<Rightarrow>
          (let sub = dict_get payload ''sub'';
               max_exp_ts = dict_get payload ''max_exp''
           in if sub = JNull \<or> max_exp_ts = JNull then Inl credentials_exception
              else (case py_num max_exp_ts of
                      None \<Rightarrow> Inl TypeError
                    | Some m \<Rightarrow>
                        if now > m then Inl max_lifetime_exception
                        else UserPayload_validate e payload)))"

text \<open>
  \<^verbatim>\<open>verify_jwt_token\<close>: the \<^verbatim>\<open>except\<close> clauses in their order. The \<^verbatim>\<open>HTTPException\<close>s
  raised inside the \<^verbatim>\<open>try\<close> block are caught by the last clause, \<^verbatim>\<open>except Exception\<close>.
\<close>

definition verify_jwt_token :: "env \<Rightarrow> timestamp \<Rightarrow> token \<Rightarrow> exn + UserPayload" where
  "verify_jwt_token e now t =
     (case verify_try e now t of
        Inr user_payload \<Rightarrow> Inr user_payload
      | Inl x \<Rightarrow>
          if x = ExpiredSignatureError then Inl token_expired_exception
          else if is_JWTError x then Inl credentials_exception
          else Inl credentials_exception)"

subsection \<open>Cookies\<close>

record cookie =
  key :: string
  cookie_value :: token
  httponly :: bool
  secure :: bool
  samesite :: string
  max_age :: int
  path :: string

record request =
  cookies :: "string \<Rightarrow> token option"

text \<open>
  \<^verbatim>\<open>attach_token_to_response(response, token)\<close>: the response is the list of cookies set
  on it so far. Only \<open>JWTError\<close> is caught; then no cookie is set.
\<close>

definition attach_token_to_response ::
  "env \<Rightarrow> timestamp \<Rightarrow> cookie list \<Rightarrow> token \<Rightarrow> exn + cookie list" where
  "attach_token_to_response e now response t =
     (case jwt_decode e now t (SECRET_KEY e) False of
        Inl x \<Rightarrow> if is_JWTError x then Inr response else Inl x
      | Inr payload \<Rightarrow>
          (let exp_timestamp = dict_get payload ''exp'';
               set_cookie = (\<lambda>age. response @
                 [\<lparr>key = COOKIE_NAME, cookie_value = t, httponly = True,
                   secure = SECURE_COOKIE e, samesite = ''lax'', max_age = age, path = ''/''\<rparr>])
           in if truthy exp_timestamp
              then (case py_num exp_timestamp of
                      None \<Rightarrow> Inl TypeError
                    | Some ex \<Rightarrow> Inr (set_cookie (max 0 (trunc (ex - now)))))
              else Inr (set_cookie (ACCESS_TOKEN_EXPIRE_HOURS * 60 * 60))))"

subsection \<open>Dependencies and endpoints\<close>

text \<open>What an endpoint returns: the JSON body and the cookies it set on the response.\<close>

record endpoint_result =
  content :: "(string \<times> json) list"
  set_cookies :: "cookie list"

definition get_token_data_for_refresh ::
  "env \<Rightarrow> timestamp \<Rightarrow> request \<Rightarrow> exn + (token \<times> claims)" where
  "get_token_data_for_refresh e now req =
     (case cookies req COOKIE_NAME of
        None \<Rightarrow> Inl (HTTPException 401 ''Missing token cookie for refresh'')
      | Some t \<Rightarrow>
          if t = Unparsable [] then Inl (HTTPException 401 ''Missing token cookie for refresh'')
          else (case jwt_decode e now t (SECRET_KEY e) False of
                  Inl x \<Rightarrow>
                    if is_JWTError x then Inl (HTTPException 401 ''Invalid token format'')
                    else Inl x
                | Inr payload \<Rightarrow>
                    if \<not> truthy (dict_get payload ''sub'')
                       \<or> \<not> truthy (dict_get payload ''iat'')
                       \<or> \<not> truthy (dict_get payload ''max_exp'')
                    then Inl (HTTPException 401 ''Invalid token structure for refresh'')
                    else Inr (t, payload)))"

text \<open>\<^verbatim>\<open>"expired" in e.detail.lower()\<close>.\<close>

definition lower_char :: "char \<Rightarrow> char" where
  "lower_char c =
     (if 65 \<le> (of_char c :: nat) \<and> (of_char c :: nat) \<le> 90
      then char_of ((of_char c :: nat) + 32) else c)"

fun contains :: "string \<Rightarrow> string \<Rightarrow> bool" where
  "contains sub [] = (sub = [])"
| "contains sub (c # cs) = (take (length sub) (c # cs) = sub \<or> contains sub cs)"

text \<open>
  \<^verbatim>\<open>refresh_token(response, token_data)\<close>, on what the dependency returned. The response
  starts with no cookie set.
\<close>

definition refresh_token :: "env \<Rightarrow> timestamp \<Rightarrow> token \<times> claims \<Rightarrow> exn + endpoint_result" where
  "refresh_token e now token_data =
     (let t = fst token_data; payload = snd token_data in
      case dict_item payload ''sub'' of Inl x \<Rightarrow> Inl x | Inr sub \<Rightarrow>
      case dict_item payload ''max_exp'' of Inl x \<Rightarrow> Inl x | Inr max_exp_ts \<Rightarrow>
      case dict_item payload ''iat'' of Inl x \<Rightarrow> Inl x | Inr issued_at_ts \<Rightarrow>
      case py_num max_exp_ts of None \<Rightarrow> Inl TypeError | Some m \<Rightarrow>
      if now > m
      then Inl (HTTPException 401 ''Maximum session lifetime exceeded. Please log in again.'')
      else
      case py_num issued_at_ts of None \<Rightarrow> Inl TypeError | Some iat \<Rightarrow>
      let refresh_allowed_at_ts = iat + hours REFRESH_INTERVAL_HOURS in
      if now < refresh_allowed_at_ts
      then Inr \<lparr>content =
                  [(''message'', JStr ''Refresh interval not met, try again later.''),
                   (''refresh_success'', JBool False),
                   (''next_refresh_allowed_at'', JFloat refresh_allowed_at_ts)],
                set_cookies = []\<rparr>
      else
      case (case verify_jwt_token e now t of
              Inr u \<Rightarrow> None
            | Inl x \<Rightarrow>
                (case x of
                   HTTPException sc d \<Rightarrow>
                     if sc = 401 \<and> contains ''expired'' (map lower_char d) then None else Some x
                 | _ \<Rightarrow> Some x))
      of Some x \<Rightarrow> Inl x | None \<Rightarrow>
      case (case sub of JStr s \<Rightarrow> users_db s | _ \<Rightarrow> None) of
        None \<Rightarrow> Inl (HTTPException 500 ''Internal inconsistency'')
      | Some user \<Rightarrow>
          (let new_token = create_jwt_token e now user max_exp_ts
           in case attach_token_to_response e now [] new_token of
                Inl x \<Rightarrow> Inl x
              | Inr response \<Rightarrow>
                  Inr \<lparr>content =
                         [(''message'', JStr ''Token refreshed successfully''),
                          (''refresh_success'', JBool True)],
                       set_cookies = response\<rparr>))"

text \<open>The route \<^verbatim>\<open>POST /refresh\<close>: the dependency, then the endpoint.\<close>

definition post_refresh :: "env \<Rightarrow> timestamp \<Rightarrow> request \<Rightarrow> exn + endpoint_result" where
  "post_refresh e now req =
     (case get_token_data_for_refresh e now req of
        Inl x \<Rightarrow> Inl x
      | Inr token_data \<Rightarrow> refresh_token e now token_data)"

text \<open>
  A session of refreshes: the client sends the token it holds, and on a successful
  refresh holds the token of the cookie the response set.
\<close>

definition claim_of :: "token \<Rightarrow> string \<Rightarrow> json" where
  "claim_of t k = (case t of Unparsable s \<Rightarrow> JNull | JWS alg c s \<Rightarrow> dict_get c k)"

definition cookie_request :: "token \<Rightarrow> request" where
  "cookie_request t = \<lparr>cookies = (\<lambda>k. if k = COOKIE_NAME then Some t else None)\<rparr>"

definition refreshed_token :: "endpoint_result \<Rightarrow> token option" where
  "refreshed_token r =
     (if dict_get (content r) ''refresh_success'' = JBool True
      then (case set_cookies r of [] \<Rightarrow> None | c # cs \<Rightarrow> Some (cookie_value (last (c # cs))))
      else None)"

fun refresh_chain :: "env \<Rightarrow> token \<Rightarrow> timestamp list \<Rightarrow> token option" where
  "refresh_chain e t [] = Some t"
| "refresh_chain e t (now # nows) =
     (case post_refresh e now (cookie_request t) of
        Inl x \<Rightarrow> None
      | Inr r \<Rightarrow>
          (case refreshed_token r of None \<Rightarrow> None | Some t' \<Rightarrow> refresh_chain e t' nows))"

text \<open>The invariant of the data model: the access expiry is no later than the absolute one.\<close>

definition exp_within_max_exp :: "token \<Rightarrow> bool" where
  "exp_within_max_exp t =
     (case py_num (claim_of t ''exp'') of
        None \<Rightarrow> False
      | Some a \<Rightarrow> (case py_num (claim_of t ''max_exp'') of None \<Rightarrow> False | Some b \<Rightarrow> a \<le> b))"

section \<open>The renewal middleware: \<^verbatim>\<open>src/middleware.py\<close>\<close>

definition TOKEN_RENEW_THRESHOLD_MINUTES :: int where
  "TOKEN_RENEW_THRESHOLD_MINUTES = 15"

definition ACCESS_TOKEN_EXPIRE_MINUTES :: int where
  "ACCESS_TOKEN_EXPIRE_MINUTES = 20"

record response =
  resp_status :: int
  resp_body :: json
  resp_cookies :: "cookie list"

text \<open>
  The \<^verbatim>\<open>try\<close> block of \<^verbatim>\<open>dispatch\<close>: an exception, the response it returns, or \<open>None\<close>
  when it falls through. The handler \<open>call_next\<close> is a function of the request.
\<close>

definition dispatch_try ::
  "env \<Rightarrow> timestamp \<Rightarrow> (request \<Rightarrow> response) \<Rightarrow> request \<Rightarrow> token \<Rightarrow> exn + response option" where
  "dispatch_try e now call_next req t =
     (case jwt_decode e now t (SECRET_KEY e) True of Inl x \<Rightarrow> Inl x | Inr payload \<Rightarrow>
      case dict_item payload ''exp'' of Inl x \<Rightarrow> Inl x | Inr exp_claim \<Rightarrow>
      case py_num exp_claim of None \<Rightarrow> Inl TypeError | Some ex \<Rightarrow>
      let time_remaining = (ex - now) / 60 in
      if time_remaining \<le> of_int TOKEN_RENEW_THRESHOLD_MINUTES
      then
        (let new_exp = now + of_int (60 * ACCESS_TOKEN_EXPIRE_MINUTES);
             payload' = AList.update ''exp'' (JInt (trunc new_exp)) payload;
             new_token = jwt_encode e payload' (SECRET_KEY e);
             response = call_next req
         in Inr (Some (response
              \<lparr>resp_cookies := resp_cookies response @
                 [\<lparr>key = ''access_token'', cookie_value = new_token, httponly = True,
                   secure = True, samesite = ''Lax'',
                   max_age = ACCESS_TOKEN_EXPIRE_MINUTES * 60, path = ''/''\<rparr>]\<rparr>)))
      else Inr None)"

definition token_expired_response :: response where
  "token_expired_response =
     \<lparr>resp_status = 401,
      resp_body = JObj [(''detail'', JStr ''Token expired. Please log in again.'')],
      resp_cookies = []\<rparr>"

definition dispatch ::
  "env \<Rightarrow> timestamp \<Rightarrow> (request \<Rightarrow> response) \<Rightarrow> request \<Rightarrow> exn + response" where
  "dispatch e now call_next req =
     (case cookies req ''access_token'' of
        None \<Rightarrow> Inr (call_next req)
      | Some t \<Rightarrow>
          if t = Unparsable [] then Inr (call_next req)
          else (case dispatch_try e now call_next req t of
                  Inr (Some response) \<Rightarrow> Inr response
                | Inr None \<Rightarrow> Inr (call_next req)
                | Inl x \<Rightarrow>
                    if x = ExpiredSignatureError then Inr token_expired_response
                    else if is_JWTError x then Inr (call_next req)
                    else Inl x))"

section \<open>Accounts and roles: \<^verbatim>\<open>db/models.py\<close>, \<^verbatim>\<open>routers/srv/auth.py\<close>, \<^verbatim>\<open>routers/auth.py\<close>\<close>

subsection \<open>Tables\<close>

text \<open>
  The rows of the four tables, with the primary key the engine gave them. The database is
  the session's state: a committed insert appends a row with a fresh key; the foreign keys
  declared on \<^verbatim>\<open>role_permission\<close> are checked at commit (\<open>IntegrityError\<close>).
\<close>

record Role =
  id :: int
  name :: string
  description :: "string option"

record Account =
  id :: int
  username :: string
  full_name :: "string option"
  password :: "string option"
  title :: "string option"
  is_domain_user :: "bool option"
  is_super_admin :: "bool option"

record RolePermission =
  id :: int
  role_id :: int
  account_id :: int

record LogRolePermission =
  id :: int
  account_id :: int
  role_id :: int
  admin_id :: int
  action :: string
  timestamp :: real

record database =
  role :: "Role list"
  account :: "Account list"
  role_permission :: "RolePermission list"
  log_role_permission :: "LogRolePermission list"

record DomainUser =
  id :: int
  username :: string
  fullName :: "string option"
  title :: "string option"

record LoginForm =
  username :: string
  password :: string

record LoginResponse =
  userId :: "int option"
  username :: "string option"
  fullName :: "string option"
  title :: "string option"
  email :: "string option"
  roles :: "string list option"

text \<open>\<^verbatim>\<open>result.scalar_one_or_none()\<close>.\<close>

fun scalar_one_or_none :: "'a list \<Rightarrow> exn + 'a option" where
  "scalar_one_or_none [] = Inr None"
| "scalar_one_or_none [x] = Inr (Some x)"
| "scalar_one_or_none (x # y # zs) = Inl MultipleResultsFound"

text \<open>The key of the next row of a table: above every key in use, and positive.\<close>

definition next_id :: "int list \<Rightarrow> int" where
  "next_id ids = fold max ids 0 + 1"

definition quoted :: "string \<Rightarrow> string" where
  "quoted s = CHR 0x27 # s @ [CHR 0x27]"

subsection \<open>Role assignment\<close>

definition ensure_user_has_role ::
  "database \<Rightarrow> int \<Rightarrow> int \<Rightarrow> string \<Rightarrow> exn + (database \<times> string)" where
  "ensure_user_has_role db acc_id rol_id uname =
     (case scalar_one_or_none
             (filter (\<lambda>rp. RolePermission.account_id rp = acc_id
                          \<and> RolePermission.role_id rp = rol_id) (role_permission db)) of
        Inl x \<Rightarrow> Inl x
      | Inr (Some existing_role) \<Rightarrow>
          Inr (db, ''Role already assigned to user '' @ quoted uname @ ''.'')
      | Inr None \<Rightarrow>
          if rol_id \<in> set (map Role.id (role db)) \<and> acc_id \<in> set (map Account.id (account db))
          then Inr (db\<lparr>role_permission := role_permission db @
                        [\<lparr>RolePermission.id = next_id (map RolePermission.id (role_permission db)),
                          role_id = rol_id, account_id = acc_id\<rparr>]\<rparr>,
                    ''Role successfully assigned to user '' @ quoted uname @ ''.'')
          else Inl IntegrityError)"

text \<open>
  \<^verbatim>\<open>read_roles(session, account_id=None)\<close>: the join of \<^verbatim>\<open>role\<close> and \<^verbatim>\<open>role_permission\<close>
  for a truthy account id, every role name otherwise. SQL fixes no order of the rows; the
  model lists them role by role.
\<close>

definition read_roles :: "database \<Rightarrow> int option \<Rightarrow> string list" where
  "read_roles db acc_id =
     (if (case acc_id of None \<Rightarrow> False | Some a \<Rightarrow> a \<noteq> 0)
      then concat (map (\<lambda>r. map (\<lambda>rp. Role.name r)
                     (filter (\<lambda>rp. Role.id r = RolePermission.role_id rp
                                  \<and> Some (RolePermission.account_id rp) = acc_id)
                        (role_permission db)))
                   (role db))
      else map Role.name (role db))"


subsection \<open>Accounts and login\<close>











section \<open>Notions of the specification and sample data\<close>

text \<open>
  The payload \<^verbatim>\<open>create_jwt_token\<close> signs, with the durations written out in seconds.
\<close>

definition to_encode :: "timestamp \<Rightarrow> UserPayload \<Rightarrow> json \<Rightarrow> claims" where
  "to_encode now user existing_max_exp =
     [(''sub'', JStr (UserPayload.username user)),
      (''iat'', JInt \<lfloor>now\<rfloor>),
      (''exp'', JInt (\<lfloor>now\<rfloor> + 86400)),
      (''max_exp'', if existing_max_exp = JNull then JFloat (now + 604800) else existing_max_exp)]
     @ model_dump user"

text \<open>
  The rows that assign a role to an account, the role names the assignment rows give an
  account, and the condition that every account key is one an auto-increment column
  hands out (never 0).
\<close>

definition assignments :: "database \<Rightarrow> int \<Rightarrow> int \<Rightarrow> RolePermission list" where
  "assignments db acc_id rol_id =
     filter (\<lambda>rp. RolePermission.account_id rp = acc_id \<and> RolePermission.role_id rp = rol_id)
       (role_permission db)"



text \<open>
  Sample data: an environment with a toy signature, the first user of the store, a token
  issued to it at second 1000, the same payload under a signature that is not the key's, a
  session payload for the middleware with a handler that answers 200, a payload not valid
  before second 9000, the result of refreshing the issued token, the seeded database
  with a directory account, the same after that account got role 2, the same with that
  assignment stored twice, and the collaborators
  of the login route.
\<close>

definition env0 :: env where
  "env0 = \<lparr>SECRET_KEY = ''a_very_secret_dev_key_change_me'', SECURE_COOKIE = True,
           hs256 = (\<lambda>k c. k @ concat (map fst c)),
           validate_email = (\<lambda>s. CHR ''@'' \<in> set s)\<rparr>"

definition admin_user :: UserPayload where
  "admin_user =
     \<lparr>UserPayload.userId = 101, UserPayload.username = ''admin_user'',
      UserPayload.fullname = ''Admin Von Admin'', UserPayload.title = ''System Administrator'',
      UserPayload.email = ''admin@example.com'', UserPayload.roles = [1, 2]\<rparr>"

definition issued_token :: token where
  "issued_token = create_jwt_token env0 1000 admin_user JNull"

definition forged_token :: token where
  "forged_token = JWS ''HS256'' (to_encode 1000 admin_user JNull) ''forged''"

definition session_claims :: claims where
  "session_claims = [(''sub'', JStr ''jdoe''), (''exp'', JInt 1000), (''user'', JObj [])]"

definition ok_handler :: "request \<Rightarrow> response" where
  "ok_handler req = \<lparr>resp_status = 200, resp_body = JObj [], resp_cookies = []\<rparr>"

definition early_claims :: claims where
  "early_claims = [(''sub'', JStr ''jdoe''), (''nbf'', JInt 9000), (''exp'', JInt 10000)]"

definition refreshed_result :: endpoint_result where
  "refreshed_result =
     \<lparr>content = [(''message'', JStr ''Token refreshed successfully''),
                 (''refresh_success'', JBool True)],
      set_cookies =
        [\<lparr>key = COOKIE_NAME,
          cookie_value = create_jwt_token env0 5000 admin_user (JFloat 605800),
          httponly = True, secure = True, samesite = ''lax'', max_age = 86400,
          path = ''/''\<rparr>]\<rparr>"

definition db0 :: database where
  "db0 =
     \<lparr>role = [\<lparr>Role.id = 1, name = ''Admin'', description = Some ''Has full access to the system''\<rparr>,
              \<lparr>Role.id = 2, name = ''User'', description = Some ''Can access basic features''\<rparr>],
      account = [\<lparr>Account.id = 1, username = ''admin'', full_name = Some ''Administrator'',
                  password = Some ''hash'', title = Some ''Built-in Administrator'',
                  is_domain_user = None, is_super_admin = Some True\<rparr>,
                 \<lparr>Account.id = 2, username = ''jdoe'', full_name = Some ''J. Doe'',
                  password = None, title = Some ''Clerk'',
                  is_domain_user = Some True, is_super_admin = None\<rparr>],
      role_permission = [],
      log_role_permission = []\<rparr>"

definition db1 :: database where
  "db1 = db0\<lparr>role_permission := [\<lparr>RolePermission.id = 1, role_id = 2, account_id = 2\<rparr>]\<rparr>"

definition db2 :: database where
  "db2 = db0\<lparr>role_permission := [\<lparr>RolePermission.id = 1, role_id = 2, account_id = 2\<rparr>,
                                  \<lparr>RolePermission.id = 2, role_id = 2, account_id = 2\<rparr>]\<rparr>"


section \<open>Issued tokens\<close>

lemma duration_simps:
  "hours ACCESS_TOKEN_EXPIRE_HOURS = 86400" "hours REFRESH_INTERVAL_HOURS = 3600"
  "days MAX_TOKEN_LIFETIME_DAYS = 604800"
  by (simp_all add: hours_def days_def ACCESS_TOKEN_EXPIRE_HOURS_def REFRESH_INTERVAL_HOURS_def
      MAX_TOKEN_LIFETIME_DAYS_def)

lemma create_jwt_token_eq:
  "create_jwt_token e now u m =
     JWS ALGORITHM (to_encode now u m) (hs256 e (SECRET_KEY e) (to_encode now u m))"
  by (simp add: create_jwt_token_def Let_def jwt_encode_def to_encode_def duration_simps max_def)

lemma to_encode_get:
  "dict_get (to_encode now u m) ''sub'' = JStr (UserPayload.username u)"
  "dict_get (to_encode now u m) ''iat'' = JInt \<lfloor>now\<rfloor>"
  "dict_get (to_encode now u m) ''exp'' = JInt (\<lfloor>now\<rfloor> + 86400)"
  "dict_get (to_encode now u m) ''max_exp'' = (if m = JNull then JFloat (now + 604800) else m)"
  by (simp_all add: to_encode_def dict_get_def)

lemma to_encode_item:
  "dict_item (to_encode now u m) ''sub'' = Inr (JStr (UserPayload.username u))"
  "dict_item (to_encode now u m) ''iat'' = Inr (JInt \<lfloor>now\<rfloor>)"
  "dict_item (to_encode now u m) ''max_exp'' = Inr (if m = JNull then JFloat (now + 604800) else m)"
  by (simp_all add: to_encode_def dict_item_def)

lemma claim_of_created:
  "claim_of (create_jwt_token e now u m) k = dict_get (to_encode now u m) k"
  by (simp add: claim_of_def create_jwt_token_eq)

lemma validate_claims_created:
  "validate_claims t vexp (to_encode now u m) =
     (if vexp \<and> \<lfloor>now\<rfloor> + 86400 < \<lfloor>t\<rfloor> then Inl ExpiredSignatureError else Inr ())"
  by (simp add: validate_claims_def to_encode_def model_dump_def validate_iat_def validate_nbf_def
      validate_exp_def validate_aud_def validate_str_claim_def validate_at_hash_def int_claim_def)

lemma jwt_decode_created:
  "jwt_decode e t (create_jwt_token e now u m) (SECRET_KEY e) vexp =
     (if vexp \<and> \<lfloor>now\<rfloor> + 86400 < \<lfloor>t\<rfloor> then Inl ExpiredSignatureError
      else Inr (to_encode now u m))"
  by (simp add: jwt_decode_def create_jwt_token_eq jws_verify_def validate_claims_created)

lemma those_lax_int: "those (map (lax_int \<circ> JInt) xs) = Some xs"
  by (induction xs) simp_all

lemma UserPayload_validate_dump:
  "validate_email e (UserPayload.email u) \<Longrightarrow> UserPayload_validate e (to_encode now u m) = Inr u"
  by (simp add: UserPayload_validate_def to_encode_def model_dump_def those_lax_int)

lemma verify_fresh_token:
  assumes "validate_email e (UserPayload.email u)" and "t < of_int (\<lfloor>now\<rfloor> + 86400)"
  shows "verify_jwt_token e t (create_jwt_token e now u JNull) = Inr u"
proof -
  have "\<not> \<lfloor>now\<rfloor> + 86400 < \<lfloor>t\<rfloor>" using assms(2) by linarith
  moreover have "\<not> t > now + 604800" using assms(2) by linarith
  ultimately show ?thesis
    using assms(1)
    by (simp add: verify_jwt_token_def verify_try_def jwt_decode_created
        UserPayload_validate_dump Let_def to_encode_get)
qed

lemma users_db_cases:
  "users_db n = Some u \<Longrightarrow> UserPayload.username u = n \<and> n \<noteq> [] \<and> (n = ''admin_user'' \<or> n = ''regular_user'')"
  by (auto simp: users_db_def split: if_splits)

text \<open>
  C2. For every identity of the user store, verifying the token issued to it, at any time
  before the second in the token's \<^verbatim>\<open>exp\<close> claim, succeeds and returns that identity:
  \<^verbatim>\<open>userId\<close>, \<^verbatim>\<open>username\<close>, \<^verbatim>\<open>fullname\<close>, \<^verbatim>\<open>title\<close>, \<^verbatim>\<open>email\<close> and \<^verbatim>\<open>roles\<close> are the
  fields of the record returned. The addresses of the store passed the \<^verbatim>\<open>EmailStr\<close> check
  when the store was built, which is the second premise.
\<close>

theorem verify_after_issue:
  assumes "users_db n = Some u"
      and "validate_email e (UserPayload.email u)"
      and "py_num (claim_of (create_jwt_token e now u JNull) ''exp'') = Some ex"
      and "t < ex"
  shows "verify_jwt_token e t (create_jwt_token e now u JNull) = Inr u"
proof -
  from assms(3) have "ex = of_int (\<lfloor>now\<rfloor> + 86400)"
    by (simp add: claim_of_created to_encode_get)
  with assms(4) have "t < of_int (\<lfloor>now\<rfloor> + 86400)"
    by simp
  with assms(2) show ?thesis
    by (rule verify_fresh_token)
qed

text \<open>
  The token issued to \<^verbatim>\<open>admin_user\<close> at second 1000 verifies at second 5000.
\<close>

theorem verify_after_issue_witness:
  "users_db ''admin_user'' = Some admin_user
   \<and> validate_email env0 (UserPayload.email admin_user)
   \<and> py_num (claim_of (create_jwt_token env0 1000 admin_user JNull) ''exp'') = Some 87400
   \<and> (5000 :: real) < 87400
   \<and> verify_jwt_token env0 5000 (create_jwt_token env0 1000 admin_user JNull) = Inr admin_user"
proof -
  have u: "users_db ''admin_user'' = Some admin_user"
    by (simp add: users_db_def admin_user_def)
  have v: "validate_email env0 (UserPayload.email admin_user)"
    by (simp add: env0_def admin_user_def)
  have x: "py_num (claim_of (create_jwt_token env0 1000 admin_user JNull) ''exp'') = Some 87400"
    by (simp add: claim_of_created to_encode_get)
  have lt: "(5000 :: real) < 87400"
    by simp
  from verify_after_issue[OF u v x lt] u v x lt show ?thesis
    by blast
qed

text \<open>
  Whatever the token, \<^verbatim>\<open>verify_jwt_token\<close> returns a user or raises one of two
  exceptions. The maximum-lifetime exception it raises inside its \<^verbatim>\<open>try\<close> block is
  caught by its own \<^verbatim>\<open>except Exception\<close> and leaves as the credentials one.
\<close>

lemma verify_outcomes:
  "(\<exists>u. verify_jwt_token e now t = Inr u)
   \<or> verify_jwt_token e now t = Inl token_expired_exception
   \<or> verify_jwt_token e now t = Inl credentials_exception"
  by (simp add: verify_jwt_token_def split: sum.splits)

lemma verify_lifetime_message_lost:
  "verify_jwt_token e now t \<noteq> Inl max_lifetime_exception"
  using verify_outcomes[of e now t]
  by (auto simp: max_lifetime_exception_def token_expired_exception_def
      credentials_exception_def)

section \<open>The refresh endpoint\<close>

lemma jwt_decode_Inr:
  "jwt_decode e now t k vexp = Inr c \<Longrightarrow>
     t = JWS ALGORITHM c (hs256 e k c) \<and> validate_claims now vexp c = Inr ()"
  by (auto simp: jwt_decode_def jws_verify_def split: token.splits if_splits sum.splits)

lemma jwt_decode_bad_signature:
  "jws_verify e t k = Inl x \<Longrightarrow> jwt_decode e now t k vexp = Inl JWTError"
  by (auto simp: jwt_decode_def jws_verify_def split: token.splits if_splits)

lemma get_token_data_Inr:
  "get_token_data_for_refresh e now req = Inr (t, payload) \<Longrightarrow>
     cookies req COOKIE_NAME = Some t
     \<and> t = JWS ALGORITHM payload (hs256 e (SECRET_KEY e) payload)
     \<and> truthy (dict_get payload ''sub'') \<and> truthy (dict_get payload ''iat'')
     \<and> truthy (dict_get payload ''max_exp'')"
  by (auto simp: get_token_data_for_refresh_def
      split: option.splits if_splits sum.splits dest: jwt_decode_Inr)

lemma dict_item_get: "truthy (dict_get d k) \<Longrightarrow> dict_item d k = Inr (dict_get d k)"
  by (auto simp: dict_item_def dict_get_def split: option.splits)

lemma dict_item_Inr: "dict_item d k = Inr v \<Longrightarrow> dict_get d k = v"
  by (simp add: dict_item_def dict_get_def split: option.splits)

lemma get_token_data_created:
  assumes "UserPayload.username u \<noteq> []" and "\<lfloor>t0\<rfloor> \<noteq> 0"
      and "truthy (if m = JNull then JFloat (t0 + 604800) else m)"
  shows "get_token_data_for_refresh e now (cookie_request (create_jwt_token e t0 u m)) =
           Inr (create_jwt_token e t0 u m, to_encode t0 u m)"
  using assms
  by (simp add: get_token_data_for_refresh_def cookie_request_def jwt_decode_created to_encode_get)
     (simp add: create_jwt_token_eq)

lemma issued_refresh_data:
  "get_token_data_for_refresh env0 now (cookie_request issued_token) =
     Inr (issued_token, to_encode 1000 admin_user JNull)"
  unfolding issued_token_def
  by (rule get_token_data_created) (simp_all add: admin_user_def)

text \<open>
  C3. A token the refresh dependency accepts (it is correctly signed and carries
  \<^verbatim>\<open>sub\<close>, \<^verbatim>\<open>iat\<close> and \<^verbatim>\<open>max_exp\<close>) whose \<^verbatim>\<open>max_exp\<close> is strictly in the past is refused
  with status 401 and the maximum-lifetime message. Nothing is assumed about \<^verbatim>\<open>exp\<close> or
  about \<^verbatim>\<open>iat\<close>: the refusal comes before the refresh interval is looked at.
\<close>

theorem refresh_lifetime_exceeded:
  assumes "get_token_data_for_refresh e now req = Inr (t, payload)"
      and "py_num (dict_get payload ''max_exp'') = Some m"
      and "m < now"
  shows "post_refresh e now req =
           Inl (HTTPException 401 ''Maximum session lifetime exceeded. Please log in again.'')"
proof -
  from get_token_data_Inr[OF assms(1)]
  have "dict_item payload ''sub'' = Inr (dict_get payload ''sub'')"
       "dict_item payload ''iat'' = Inr (dict_get payload ''iat'')"
       "dict_item payload ''max_exp'' = Inr (dict_get payload ''max_exp'')"
    by (simp_all add: dict_item_get)
  then show ?thesis
    using assms by (simp add: post_refresh_def refresh_token_def)
qed

text \<open>
  The token issued at second 1000 has \<^verbatim>\<open>max_exp\<close> 605800; a refresh at second 700000 is
  refused.
\<close>

theorem refresh_lifetime_exceeded_witness:
  "get_token_data_for_refresh env0 700000 (cookie_request issued_token) =
     Inr (issued_token, to_encode 1000 admin_user JNull)
   \<and> py_num (dict_get (to_encode 1000 admin_user JNull) ''max_exp'') = Some 605800
   \<and> (605800 :: real) < 700000
   \<and> post_refresh env0 700000 (cookie_request issued_token) =
       Inl (HTTPException 401 ''Maximum session lifetime exceeded. Please log in again.'')"
proof -
  have m: "py_num (dict_get (to_encode 1000 admin_user JNull) ''max_exp'') = Some 605800"
    by (simp add: to_encode_get)
  have lt: "(605800 :: real) < 700000"
    by simp
  from refresh_lifetime_exceeded[OF issued_refresh_data m lt] issued_refresh_data m lt
  show ?thesis by blast
qed

text \<open>
  C4. A token the refresh dependency accepts, within its absolute lifetime, refreshed
  strictly before \<^verbatim>\<open>iat\<close> plus the refresh interval: the endpoint returns normally, with
  \<^verbatim>\<open>refresh_success\<close> false and \<^verbatim>\<open>iat\<close> plus the interval as \<^verbatim>\<open>next_refresh_allowed_at\<close>,
  and sets no cookie.
\<close>

theorem refresh_interval_not_met:
  assumes "get_token_data_for_refresh e now req = Inr (t, payload)"
      and "py_num (dict_get payload ''max_exp'') = Some m"
      and "now \<le> m"
      and "py_num (dict_get payload ''iat'') = Some issued_at"
      and "now < issued_at + hours REFRESH_INTERVAL_HOURS"
  shows "post_refresh e now req =
           Inr \<lparr>content =
                  [(''message'', JStr ''Refresh interval not met, try again later.''),
                   (''refresh_success'', JBool False),
                   (''next_refresh_allowed_at'', JFloat (issued_at + hours REFRESH_INTERVAL_HOURS))],
                set_cookies = []\<rparr>"
proof -
  from get_token_data_Inr[OF assms(1)]
  have "dict_item payload ''sub'' = Inr (dict_get payload ''sub'')"
       "dict_item payload ''iat'' = Inr (dict_get payload ''iat'')"
       "dict_item payload ''max_exp'' = Inr (dict_get payload ''max_exp'')"
    by (simp_all add: dict_item_get)
  then show ?thesis
    using assms by (simp add: post_refresh_def refresh_token_def Let_def)
qed

text \<open>
  The token issued at second 1000, refreshed at second 2000.
\<close>

theorem refresh_interval_not_met_witness:
  "get_token_data_for_refresh env0 2000 (cookie_request issued_token) =
     Inr (issued_token, to_encode 1000 admin_user JNull)
   \<and> py_num (dict_get (to_encode 1000 admin_user JNull) ''max_exp'') = Some 605800
   \<and> (2000 :: real) \<le> 605800
   \<and> py_num (dict_get (to_encode 1000 admin_user JNull) ''iat'') = Some 1000
   \<and> (2000 :: real) < 1000 + hours REFRESH_INTERVAL_HOURS
   \<and> post_refresh env0 2000 (cookie_request issued_token) =
       Inr \<lparr>content =
              [(''message'', JStr ''Refresh interval not met, try again later.''),
               (''refresh_success'', JBool False),
               (''next_refresh_allowed_at'', JFloat (1000 + hours REFRESH_INTERVAL_HOURS))],
            set_cookies = []\<rparr>"
proof -
  have m: "py_num (dict_get (to_encode 1000 admin_user JNull) ''max_exp'') = Some 605800"
    by (simp add: to_encode_get)
  have i: "py_num (dict_get (to_encode 1000 admin_user JNull) ''iat'') = Some 1000"
    by (simp add: to_encode_get)
  have le: "(2000 :: real) \<le> 605800"
    by simp
  have lt: "(2000 :: real) < 1000 + hours REFRESH_INTERVAL_HOURS"
    by (simp add: duration_simps)
  from refresh_interval_not_met[OF issued_refresh_data m le i lt] issued_refresh_data m le i lt
  show ?thesis by blast
qed

text \<open>
  C5. A token whose signature does not verify under the key is refused by
  \<^verbatim>\<open>verify_jwt_token\<close> with 401 and \<^verbatim>\<open>Could not validate credentials\<close> and by the refresh
  route with 401 and \<^verbatim>\<open>Invalid token format\<close>, at every time and whatever its claims;
  neither answer is the one for an expired token. (The empty cookie value counts as no
  cookie.)
\<close>

theorem bad_signature_rejected:
  assumes "jws_verify e t (SECRET_KEY e) = Inl x"
      and "cookies req COOKIE_NAME = Some t"
      and "t \<noteq> Unparsable []"
  shows "verify_jwt_token e now t = Inl (HTTPException 401 ''Could not validate credentials'')
       \<and> post_refresh e now req = Inl (HTTPException 401 ''Invalid token format'')
       \<and> verify_jwt_token e now t \<noteq> Inl token_expired_exception"
  using assms jwt_decode_bad_signature[OF assms(1)]
  by (simp add: verify_jwt_token_def verify_try_def post_refresh_def
      get_token_data_for_refresh_def credentials_exception_def token_expired_exception_def)

text \<open>
  The payload of the issued token under a signature that is not the key's.
\<close>

theorem bad_signature_rejected_witness:
  "jws_verify env0 forged_token (SECRET_KEY env0) = Inl JWTError
   \<and> cookies (cookie_request forged_token) COOKIE_NAME = Some forged_token
   \<and> forged_token \<noteq> Unparsable []
   \<and> verify_jwt_token env0 5000 forged_token =
       Inl (HTTPException 401 ''Could not validate credentials'')
   \<and> post_refresh env0 5000 (cookie_request forged_token) =
       Inl (HTTPException 401 ''Invalid token format'')"
proof -
  have v: "jws_verify env0 forged_token (SECRET_KEY env0) = Inl JWTError"
    by (simp add: jws_verify_def forged_token_def env0_def)
  have c: "cookies (cookie_request forged_token) COOKIE_NAME = Some forged_token"
    by (simp add: cookie_request_def)
  have n: "forged_token \<noteq> Unparsable []"
    by (simp add: forged_token_def)
  from bad_signature_rejected[OF v c n, of 5000] v c n show ?thesis
    by blast
qed

section \<open>Chains of refreshes\<close>

lemma attach_created:
  "\<exists>c. attach_token_to_response e now resp (create_jwt_token e now u m) = Inr (resp @ [c])
       \<and> cookie_value c = create_jwt_token e now u m"
  by (simp add: attach_token_to_response_def jwt_decode_created to_encode_get Let_def)

lemma expired_detail:
  "contains ''expired'' (map lower_char ''Token has expired'')"
  "\<not> contains ''expired'' (map lower_char ''Could not validate credentials'')"
  by (simp_all add: lower_char_def)

lemma refresh_token_success:
  assumes "refresh_token e now (t, payload) = Inr r" and "refreshed_token r = Some t'"
  shows "\<exists>u. t' = create_jwt_token e now u (dict_get payload ''max_exp'')
             \<and> dict_get payload ''max_exp'' \<noteq> JNull"
proof -
  from assms(2) have ne: "set_cookies r \<noteq> []"
    by (auto simp: refreshed_token_def split: if_splits list.splits)
  from assms(1) obtain sub max_exp_ts issued_at_ts m where
    s: "dict_item payload ''sub'' = Inr sub"
    and m: "dict_item payload ''max_exp'' = Inr max_exp_ts" "py_num max_exp_ts = Some m"
    and i: "dict_item payload ''iat'' = Inr issued_at_ts"
    by (auto simp: refresh_token_def Let_def split: sum.splits option.splits if_splits)
  from assms(1) ne s m i obtain user resp where
    "set_cookies r = resp"
    "attach_token_to_response e now [] (create_jwt_token e now user max_exp_ts) = Inr resp"
    by (simp add: refresh_token_def Let_def split: sum.splits option.splits if_splits) auto
  moreover from attach_created[of e now "[]" user max_exp_ts]
  obtain c where "attach_token_to_response e now [] (create_jwt_token e now user max_exp_ts) = Inr [c]"
    "cookie_value c = create_jwt_token e now user max_exp_ts"
    by auto
  ultimately have "set_cookies r = [c]" "cookie_value c = create_jwt_token e now user max_exp_ts"
    by auto
  with assms(2) have "t' = create_jwt_token e now user max_exp_ts"
    by (auto simp: refreshed_token_def split: if_splits)
  moreover from m have "dict_get payload ''max_exp'' = max_exp_ts" "max_exp_ts \<noteq> JNull"
    by (auto simp: dict_item_Inr)
  ultimately show ?thesis by auto
qed

lemma post_refresh_success:
  assumes "post_refresh e now (cookie_request t) = Inr r" and "refreshed_token r = Some t'"
  shows "claim_of t' ''max_exp'' = claim_of t ''max_exp''"
proof -
  from assms(1) obtain t0 payload where
    g: "get_token_data_for_refresh e now (cookie_request t) = Inr (t0, payload)"
    and rt: "refresh_token e now (t0, payload) = Inr r"
    by (auto simp: post_refresh_def split: sum.splits)
  from get_token_data_Inr[OF g]
  have t: "t = JWS ALGORITHM payload (hs256 e (SECRET_KEY e) payload)"
    by (auto simp: cookie_request_def)
  from refresh_token_success[OF rt assms(2)] obtain u where
    "t' = create_jwt_token e now u (dict_get payload ''max_exp'')"
    "dict_get payload ''max_exp'' \<noteq> JNull"
    by blast
  then show ?thesis
    using t by (simp add: claim_of_created to_encode_get) (simp add: claim_of_def)
qed

lemma refresh_chain_max_exp:
  "refresh_chain e t nows = Some t' \<Longrightarrow> claim_of t' ''max_exp'' = claim_of t ''max_exp''"
proof (induction nows arbitrary: t)
  case Nil
  then show ?case by simp
next
  case (Cons now nows)
  then show ?case
    by (auto split: sum.splits option.splits dest: post_refresh_success)
qed

lemma verify_created_cases:
  assumes "validate_email e (UserPayload.email u)"
      and "py_num (if m = JNull then JFloat (t0 + 604800) else m) = Some x" and "now \<le> x"
  shows "verify_jwt_token e now (create_jwt_token e t0 u m) = Inr u
       \<or> verify_jwt_token e now (create_jwt_token e t0 u m) = Inl token_expired_exception"
  using assms
  by (auto simp: verify_jwt_token_def verify_try_def jwt_decode_created
      UserPayload_validate_dump Let_def to_encode_get)

lemma expired_tolerated:
  "(case token_expired_exception of
      HTTPException sc d \<Rightarrow>
        if sc = 401 \<and> contains ''expired'' (map lower_char d) then None
        else Some token_expired_exception
    | _ \<Rightarrow> Some token_expired_exception) = None"
  unfolding token_expired_exception_def
  by (simp only: exn.case expired_detail) simp

lemma refresh_token_created:
  assumes u: "users_db n = Some u" "validate_email e (UserPayload.email u)"
      and t0: "of_int \<lfloor>t0\<rfloor> + 3600 \<le> now"
      and m: "truthy (if m = JNull then JFloat (t0 + 604800) else m)"
             "py_num (if m = JNull then JFloat (t0 + 604800) else m) = Some x" "now \<le> x"
      and c: "attach_token_to_response e now []
                (create_jwt_token e now u (if m = JNull then JFloat (t0 + 604800) else m)) = Inr cs"
  shows "refresh_token e now (create_jwt_token e t0 u m, to_encode t0 u m) =
          Inr \<lparr>content = [(''message'', JStr ''Token refreshed successfully''),
                          (''refresh_success'', JBool True)],
               set_cookies = cs\<rparr>"
proof -
  from users_db_cases[OF u(1)] have n: "users_db (UserPayload.username u) = Some u" using u(1) by auto
  have v: "(case verify_jwt_token e now (create_jwt_token e t0 u m) of
              Inr u \<Rightarrow> None
            | Inl x \<Rightarrow>
                (case x of
                   HTTPException sc d \<Rightarrow>
                     if sc = 401 \<and> contains ''expired'' (map lower_char d) then None else Some x
                 | _ \<Rightarrow> Some x)) = None"
  proof -
    from verify_created_cases[OF u(2) m(2,3)]
    consider "verify_jwt_token e now (create_jwt_token e t0 u m) = Inr u"
      | "verify_jwt_token e now (create_jwt_token e t0 u m) = Inl token_expired_exception"
      by blast
    then show ?thesis
    proof cases
      case 1
      then show ?thesis by (simp only: sum.case)
    next
      case 2
      then show ?thesis by (simp only: sum.case expired_tolerated)
    qed
  qed
  have lt: "\<not> x < now" "\<not> now < of_int \<lfloor>t0\<rfloor> + 3600"
    using m(3) t0 by auto
  show ?thesis
    unfolding refresh_token_def
    by (simp only: fst_conv snd_conv Let_def to_encode_item sum.case m(2) option.case lt if_False
        py_num.simps duration_simps v json.case n c)
qed

text \<open>
  A refresh of a token of this service, due and within its lifetime, succeeds, whether
  or not the token's \<^verbatim>\<open>exp\<close> has passed.
\<close>

lemma refresh_created:
  assumes u: "users_db n = Some u" "validate_email e (UserPayload.email u)"
      and t0: "\<lfloor>t0\<rfloor> \<noteq> 0" "of_int \<lfloor>t0\<rfloor> + 3600 \<le> now"
      and m: "m' = (if m = JNull then JFloat (t0 + 604800) else m)" "truthy m'"
             "py_num m' = Some x" "now \<le> x"
  shows "refresh_chain e (create_jwt_token e t0 u m) [now] = Some (create_jwt_token e now u m')"
proof -
  from users_db_cases[OF u(1)] have n: "UserPayload.username u \<noteq> []" by auto
  have g: "get_token_data_for_refresh e now (cookie_request (create_jwt_token e t0 u m)) =
             Inr (create_jwt_token e t0 u m, to_encode t0 u m)"
    using get_token_data_created[of u t0 m e now] n t0(1) m(1,2) by simp
  obtain c where c: "attach_token_to_response e now [] (create_jwt_token e now u m') = Inr [c]"
    "cookie_value c = create_jwt_token e now u m'"
    using attach_created[of e now "[]" u m'] by auto
  have "refresh_token e now (create_jwt_token e t0 u m, to_encode t0 u m) =
          Inr \<lparr>content = [(''message'', JStr ''Token refreshed successfully''),
                          (''refresh_success'', JBool True)],
               set_cookies = [c]\<rparr>"
    using refresh_token_created[OF u t0(2), of m x "[c]"] m c(1) by simp
  then show ?thesis
    using g c(2) by (simp add: post_refresh_def refreshed_token_def dict_get_def)
qed

lemma exp_within_max_exp_created:
  "exp_within_max_exp (create_jwt_token e now u m) =
     (case py_num (if m = JNull then JFloat (now + 604800) else m) of
        None \<Rightarrow> False | Some b \<Rightarrow> of_int \<lfloor>now\<rfloor> + 86400 \<le> b)"
  by (simp add: exp_within_max_exp_def claim_of_created to_encode_get)

lemma post_refresh_success_exp:
  assumes "post_refresh e now (cookie_request t) = Inr r" and "refreshed_token r = Some t'"
      and "py_num (claim_of t ''max_exp'') = Some x"
  shows "exp_within_max_exp t' \<longleftrightarrow> of_int \<lfloor>now\<rfloor> + 86400 \<le> x"
proof -
  from assms(1) obtain t0 payload where
    g: "get_token_data_for_refresh e now (cookie_request t) = Inr (t0, payload)"
    and rt: "refresh_token e now (t0, payload) = Inr r"
    by (auto simp: post_refresh_def split: sum.splits)
  from get_token_data_Inr[OF g]
  have t: "t = JWS ALGORITHM payload (hs256 e (SECRET_KEY e) payload)"
    by (auto simp: cookie_request_def)
  from refresh_token_success[OF rt assms(2)] obtain u where
    u: "t' = create_jwt_token e now u (dict_get payload ''max_exp'')"
    "dict_get payload ''max_exp'' \<noteq> JNull"
    by blast
  from t assms(3) have "py_num (dict_get payload ''max_exp'') = Some x"
    by (simp add: claim_of_def)
  with u show ?thesis
    by (simp add: exp_within_max_exp_created)
qed

text \<open>
  C1, as the code has it. A fresh issue has \<^verbatim>\<open>exp\<close> no later than \<^verbatim>\<open>max_exp\<close>. An issue
  that reuses a prior \<^verbatim>\<open>max_exp\<close> carries that value unchanged and sets \<^verbatim>\<open>exp\<close> to the
  current second plus 24 hours, so \<^verbatim>\<open>exp\<close> is no later than \<^verbatim>\<open>max_exp\<close> exactly when the
  current second plus 24 hours is; the same holds of the token a successful refresh
  hands out. Across any chain of successful refreshes the \<^verbatim>\<open>max_exp\<close> of the last token
  is the \<^verbatim>\<open>max_exp\<close> of the first.
\<close>

theorem issuance_expiry_bounds:
  "exp_within_max_exp (create_jwt_token e now u JNull)
   \<and> (py_num m = Some x \<longrightarrow>
        claim_of (create_jwt_token e now u m) ''max_exp'' = m
        \<and> claim_of (create_jwt_token e now u m) ''exp'' = JInt (\<lfloor>now\<rfloor> + 86400)
        \<and> (exp_within_max_exp (create_jwt_token e now u m) \<longleftrightarrow> of_int \<lfloor>now\<rfloor> + 86400 \<le> x))
   \<and> (post_refresh e now (cookie_request t) = Inr r \<and> refreshed_token r = Some t'
        \<and> py_num (claim_of t ''max_exp'') = Some x \<longrightarrow>
        claim_of t' ''max_exp'' = claim_of t ''max_exp''
        \<and> (exp_within_max_exp t' \<longleftrightarrow> of_int \<lfloor>now\<rfloor> + 86400 \<le> x))
   \<and> (refresh_chain e t nows = Some t'' \<longrightarrow> claim_of t'' ''max_exp'' = claim_of t ''max_exp'')"
proof -
  have "of_int \<lfloor>now\<rfloor> + 86400 \<le> now + 604800"
    using of_int_floor_le[of now] by linarith
  then have 1: "exp_within_max_exp (create_jwt_token e now u JNull)"
    by (simp add: exp_within_max_exp_created)
  have "py_num m = Some x \<Longrightarrow> m \<noteq> JNull" by auto
  then have 2: "py_num m = Some x \<longrightarrow>
        claim_of (create_jwt_token e now u m) ''max_exp'' = m
        \<and> claim_of (create_jwt_token e now u m) ''exp'' = JInt (\<lfloor>now\<rfloor> + 86400)
        \<and> (exp_within_max_exp (create_jwt_token e now u m) \<longleftrightarrow> of_int \<lfloor>now\<rfloor> + 86400 \<le> x)"
    by (auto simp: exp_within_max_exp_created claim_of_created to_encode_get)
  have 3: "post_refresh e now (cookie_request t) = Inr r \<and> refreshed_token r = Some t'
        \<and> py_num (claim_of t ''max_exp'') = Some x \<longrightarrow>
        claim_of t' ''max_exp'' = claim_of t ''max_exp''
        \<and> (exp_within_max_exp t' \<longleftrightarrow> of_int \<lfloor>now\<rfloor> + 86400 \<le> x)"
    using post_refresh_success[of e now t r t'] post_refresh_success_exp[of e now t r t' x]
    by blast
  have 4: "refresh_chain e t nows = Some t'' \<longrightarrow> claim_of t'' ''max_exp'' = claim_of t ''max_exp''"
    using refresh_chain_max_exp[of e t nows t''] by blast
  from 1 2 3 4 show ?thesis by blast
qed

text \<open>
  C1 as stated fails: the token issued at second 1000 (\<^verbatim>\<open>max_exp\<close> 605800) is refreshed
  at second 600000, within its lifetime; the new token has \<^verbatim>\<open>exp\<close> 686400, later than
  its \<^verbatim>\<open>max_exp\<close>.
\<close>

theorem refresh_exp_exceeds_max_exp:
  "refresh_chain env0 issued_token [600000] =
     Some (create_jwt_token env0 600000 admin_user (JFloat 605800))
   \<and> claim_of issued_token ''max_exp'' = JFloat 605800
   \<and> (600000 :: real) \<le> 605800
   \<and> claim_of (create_jwt_token env0 600000 admin_user (JFloat 605800)) ''exp'' = JInt 686400
   \<and> claim_of (create_jwt_token env0 600000 admin_user (JFloat 605800)) ''max_exp'' = JFloat 605800
   \<and> \<not> exp_within_max_exp (create_jwt_token env0 600000 admin_user (JFloat 605800))"
proof -
  have "users_db ''admin_user'' = Some admin_user"
    by (simp add: users_db_def admin_user_def)
  moreover have "validate_email env0 (UserPayload.email admin_user)"
    by (simp add: env0_def admin_user_def)
  ultimately have "refresh_chain env0 issued_token [600000] =
     Some (create_jwt_token env0 600000 admin_user (JFloat 605800))"
    unfolding issued_token_def
    using refresh_created[of "''admin_user''" admin_user env0 1000 600000 "JFloat 605800" JNull 605800]
    by simp
  then show ?thesis
    by (simp add: exp_within_max_exp_created claim_of_created to_encode_get issued_token_def)
qed

lemma refresh_step_sample:
  "post_refresh env0 5000 (cookie_request issued_token) =
     Inr \<lparr>content = [(''message'', JStr ''Token refreshed successfully''),
                     (''refresh_success'', JBool True)],
          set_cookies =
            [\<lparr>key = COOKIE_NAME,
              cookie_value = create_jwt_token env0 5000 admin_user (JFloat 605800),
              httponly = True, secure = True, samesite = ''lax'', max_age = 86400,
              path = ''/''\<rparr>]\<rparr>"
proof -
  have u: "users_db ''admin_user'' = Some admin_user"
    by (simp add: users_db_def admin_user_def)
  have v: "validate_email env0 (UserPayload.email admin_user)"
    by (simp add: env0_def admin_user_def)
  have a: "attach_token_to_response env0 5000 []
                (create_jwt_token env0 5000 admin_user (JFloat 605800)) =
             Inr [\<lparr>key = COOKIE_NAME,
              cookie_value = create_jwt_token env0 5000 admin_user (JFloat 605800),
              httponly = True, secure = True, samesite = ''lax'', max_age = 86400,
              path = ''/''\<rparr>]"
    by (simp add: attach_token_to_response_def jwt_decode_created to_encode_get Let_def trunc_def)
       (simp add: env0_def)
  from refresh_token_created[OF u v, of 1000 5000 JNull 605800, OF _ _ _ _] a
  have "refresh_token env0 5000 (issued_token, to_encode 1000 admin_user JNull) =
          Inr \<lparr>content = [(''message'', JStr ''Token refreshed successfully''),
                          (''refresh_success'', JBool True)],
               set_cookies =
            [\<lparr>key = COOKIE_NAME,
              cookie_value = create_jwt_token env0 5000 admin_user (JFloat 605800),
              httponly = True, secure = True, samesite = ''lax'', max_age = 86400,
              path = ''/''\<rparr>]\<rparr>"
    by (simp add: issued_token_def)
  with issued_refresh_data[of 5000] show ?thesis
    by (simp add: post_refresh_def)
qed

text \<open>
  The same token refreshed at second 5000: the invariant holds and \<^verbatim>\<open>max_exp\<close> is
  carried over.
\<close>

theorem issuance_expiry_bounds_witness:
  "exp_within_max_exp issued_token
   \<and> py_num (JFloat 605800) = Some 605800
   \<and> claim_of (create_jwt_token env0 5000 admin_user (JFloat 605800)) ''max_exp'' = JFloat 605800
   \<and> exp_within_max_exp (create_jwt_token env0 5000 admin_user (JFloat 605800))
   \<and> post_refresh env0 5000 (cookie_request issued_token) = Inr refreshed_result
   \<and> refreshed_token refreshed_result = Some (create_jwt_token env0 5000 admin_user (JFloat 605800))
   \<and> py_num (claim_of issued_token ''max_exp'') = Some 605800
   \<and> refresh_chain env0 issued_token [5000] =
       Some (create_jwt_token env0 5000 admin_user (JFloat 605800))
   \<and> claim_of (create_jwt_token env0 5000 admin_user (JFloat 605800)) ''max_exp'' =
       claim_of issued_token ''max_exp''"
proof -
  let ?t' = "create_jwt_token env0 5000 admin_user (JFloat 605800)"
  have step: "post_refresh env0 5000 (cookie_request issued_token) = Inr refreshed_result"
    unfolding refreshed_result_def by (rule refresh_step_sample)
  have tok: "refreshed_token refreshed_result = Some ?t'"
    by (simp add: refreshed_token_def refreshed_result_def dict_get_def)
  have chain: "refresh_chain env0 issued_token [5000] = Some ?t'"
    using step tok by simp
  have num: "py_num (JFloat 605800) = Some 605800"
    by simp
  have old: "py_num (claim_of issued_token ''max_exp'') = Some 605800"
    by (simp add: issued_token_def claim_of_created to_encode_get)
  note fresh = issuance_expiry_bounds[of env0 1000 admin_user "JFloat 605800" 605800
      issued_token refreshed_result ?t' "[5000]" ?t']
  note again = issuance_expiry_bounds[of env0 5000 admin_user "JFloat 605800" 605800
      issued_token refreshed_result ?t' "[5000]" ?t']
  have 1: "exp_within_max_exp issued_token"
    using fresh unfolding issued_token_def by blast
  have 2: "claim_of ?t' ''max_exp'' = JFloat 605800"
    using again num by blast
  have "exp_within_max_exp ?t' \<longleftrightarrow> of_int \<lfloor>5000::real\<rfloor> + 86400 \<le> (605800::real)"
    using again step tok old by blast
  then have 3: "exp_within_max_exp ?t'"
    by simp
  have 4: "claim_of ?t' ''max_exp'' = claim_of issued_token ''max_exp''"
    using again chain by blast
  from 1 num 2 3 step tok old chain 4 show ?thesis
    by blast
qed

section \<open>The renewal middleware\<close>

lemma dispatch_no_cookie:
  "cookies req ''access_token'' = None \<Longrightarrow> dispatch e now call_next req = Inr (call_next req)"
  by (simp add: dispatch_def)

lemma dispatch_bad_signature:
  assumes "cookies req ''access_token'' = Some t" and "jws_verify e t (SECRET_KEY e) = Inl x"
  shows "dispatch e now call_next req = Inr (call_next req)"
  using assms jwt_decode_bad_signature[OF assms(2), of now True]
  by (simp add: dispatch_def dispatch_try_def)

lemma jwt_decode_expired:
  assumes "validate_iat c = Inr ()" and "validate_nbf now c = Inr ()"
      and "map_of c ''exp'' = Some v" and "int_claim v = Inr ex" and "ex < \<lfloor>now\<rfloor>"
  shows "jwt_decode e now (JWS ALGORITHM c (hs256 e k c)) k True = Inl ExpiredSignatureError"
  using assms
  by (simp add: jwt_decode_def jws_verify_def validate_claims_def validate_exp_def)

lemma dispatch_expired:
  assumes "cookies req ''access_token'' = Some (JWS ALGORITHM c (hs256 e (SECRET_KEY e) c))"
      and "validate_iat c = Inr ()" and "validate_nbf now c = Inr ()"
      and "map_of c ''exp'' = Some v" and "int_claim v = Inr ex" and "ex < \<lfloor>now\<rfloor>"
  shows "dispatch e now call_next req = Inr token_expired_response"
  using assms(1) jwt_decode_expired[OF assms(2-6), of e "SECRET_KEY e"]
  by (simp add: dispatch_def dispatch_try_def)

lemma dispatch_JWTError:
  assumes "cookies req ''access_token'' = Some t"
      and "jwt_decode e now t (SECRET_KEY e) True = Inl JWTError"
  shows "dispatch e now call_next req = Inr (call_next req)"
  using assms by (simp add: dispatch_def dispatch_try_def)

text \<open>
  C8, as the code has it. Without the cookie the handler's response is returned as it
  is. With a token that is no JWS or whose signature does not verify under the key, or
  that the library refuses with a \<open>JWTError\<close> other than the expiry, the same. With a
  correctly signed token whose \<^verbatim>\<open>iat\<close> and \<^verbatim>\<open>nbf\<close> claims pass the
  library's validation and whose \<^verbatim>\<open>exp\<close> is earlier than the current time in whole
  seconds, the response is the 401 one, whatever the handler is.
\<close>

theorem dispatch_outcomes:
  "(cookies req ''access_token'' = None \<longrightarrow> dispatch e now call_next req = Inr (call_next req))
   \<and> (cookies req ''access_token'' = Some t \<and> jws_verify e t (SECRET_KEY e) = Inl x \<longrightarrow>
        dispatch e now call_next req = Inr (call_next req))
   \<and> (cookies req ''access_token'' = Some t
        \<and> jwt_decode e now t (SECRET_KEY e) True = Inl JWTError \<longrightarrow>
        dispatch e now call_next req = Inr (call_next req))
   \<and> (cookies req ''access_token'' = Some (JWS ALGORITHM c (hs256 e (SECRET_KEY e) c))
        \<and> validate_iat c = Inr () \<and> validate_nbf now c = Inr ()
        \<and> map_of c ''exp'' = Some v \<and> int_claim v = Inr ex \<and> ex < \<lfloor>now\<rfloor> \<longrightarrow>
        dispatch e now call_next req = Inr token_expired_response)"
  using dispatch_no_cookie[of req e now call_next]
    dispatch_bad_signature[of req t e x now call_next]
    dispatch_JWTError[of req t e now call_next]
    dispatch_expired[of req c e now v ex call_next]
  by blast

lemma dispatch_renews:
  assumes "cookies req ''access_token'' = Some t"
      and "jwt_decode e now t (SECRET_KEY e) True = Inr payload"
      and "map_of payload ''exp'' = Some v" and "py_num v = Some ex"
      and "(ex - now) / 60 \<le> of_int TOKEN_RENEW_THRESHOLD_MINUTES"
  shows "dispatch e now call_next req =
           Inr ((call_next req)
             \<lparr>resp_cookies := resp_cookies (call_next req) @
                [\<lparr>key = ''access_token'',
                  cookie_value = jwt_encode e
                    (AList.update ''exp'' (JInt (trunc (now + 1200))) payload) (SECRET_KEY e),
                  httponly = True, secure = True, samesite = ''Lax'', max_age = 1200,
                  path = ''/''\<rparr>]\<rparr>)"
proof -
  from jwt_decode_Inr[OF assms(2)] have "t \<noteq> Unparsable []" by auto
  then show ?thesis
    using assms
    by (simp add: dispatch_def dispatch_try_def dict_item_def Let_def
        ACCESS_TOKEN_EXPIRE_MINUTES_def)
qed

text \<open>
  C9. When the middleware reissues a token (the token decodes and its \<^verbatim>\<open>exp\<close> is within
  the threshold), the response is the handler's with one more cookie, whose token is the
  signed payload that has the new \<^verbatim>\<open>exp\<close>, maps every other key to what the old payload
  maps it to, and has the old payload's keys in their order.
\<close>

theorem dispatch_renewal_frame:
  assumes "cookies req ''access_token'' = Some t"
      and "jwt_decode e now t (SECRET_KEY e) True = Inr payload"
      and "map_of payload ''exp'' = Some v" and "py_num v = Some ex"
      and "(ex - now) / 60 \<le> of_int TOKEN_RENEW_THRESHOLD_MINUTES"
  shows "\<exists>payload' c.
           dispatch e now call_next req =
             Inr ((call_next req)\<lparr>resp_cookies := resp_cookies (call_next req) @ [c]\<rparr>)
           \<and> cookie_value c = jwt_encode e payload' (SECRET_KEY e)
           \<and> map_of payload' ''exp'' = Some (JInt (trunc (now + 1200)))
           \<and> (\<forall>k. k \<noteq> ''exp'' \<longrightarrow> map_of payload' k = map_of payload k)
           \<and> map fst payload' = map fst payload"
proof -
  let ?p = "AList.update ''exp'' (JInt (trunc (now + 1200))) payload"
  from assms(3) have "(''exp'', v) \<in> set payload"
    by (rule map_of_SomeD)
  then have "''exp'' \<in> fst ` set payload"
    by force
  then have "map fst ?p = map fst payload"
    by (simp add: update_keys)
  moreover have "map_of ?p ''exp'' = Some (JInt (trunc (now + 1200)))"
    "\<forall>k. k \<noteq> ''exp'' \<longrightarrow> map_of ?p k = map_of payload k"
    by (simp_all add: update_conv')
  ultimately show ?thesis
    using dispatch_renews[OF assms, of call_next] by (intro exI[of _ ?p]) auto
qed

text \<open>
  C8 as stated fails: at time 1000.5 a correctly signed token with \<^verbatim>\<open>exp\<close> 1000 has its
  \<^verbatim>\<open>exp\<close> strictly in the past, yet the library, reading the clock as second 1000, does
  not raise; the handler runs and the response carries a renewed token.
\<close>

theorem dispatch_serves_expired_within_second:
  "jws_verify env0 (jwt_encode env0 session_claims (SECRET_KEY env0)) (SECRET_KEY env0) =
     Inr session_claims
   \<and> py_num (claim_of (jwt_encode env0 session_claims (SECRET_KEY env0)) ''exp'') = Some 1000
   \<and> (1000 :: real) < 2001 / 2
   \<and> dispatch env0 (2001 / 2) ok_handler
        (cookie_request (jwt_encode env0 session_claims (SECRET_KEY env0))) =
       Inr \<lparr>resp_status = 200, resp_body = JObj [],
            resp_cookies =
              [\<lparr>key = ''access_token'',
                cookie_value = jwt_encode env0
                  [(''sub'', JStr ''jdoe''), (''exp'', JInt 2200), (''user'', JObj [])]
                  (SECRET_KEY env0),
                httponly = True, secure = True, samesite = ''Lax'', max_age = 1200,
                path = ''/''\<rparr>]\<rparr>
   \<and> dispatch env0 (2001 / 2) ok_handler
        (cookie_request (jwt_encode env0 session_claims (SECRET_KEY env0))) \<noteq>
       Inr token_expired_response"
proof -
  have v: "jws_verify env0 (jwt_encode env0 session_claims (SECRET_KEY env0)) (SECRET_KEY env0) =
     Inr session_claims"
    by (simp add: jws_verify_def jwt_encode_def)
  have d: "jwt_decode env0 (2001 / 2) (jwt_encode env0 session_claims (SECRET_KEY env0))
             (SECRET_KEY env0) True = Inr session_claims"
    by (simp add: jwt_decode_def v)
       (simp add: validate_claims_def validate_iat_def validate_nbf_def
        validate_exp_def validate_aud_def validate_str_claim_def validate_at_hash_def
        int_claim_def session_claims_def)
  have "dispatch env0 (2001 / 2) ok_handler
        (cookie_request (jwt_encode env0 session_claims (SECRET_KEY env0))) =
       Inr \<lparr>resp_status = 200, resp_body = JObj [],
            resp_cookies =
              [\<lparr>key = ''access_token'',
                cookie_value = jwt_encode env0
                  [(''sub'', JStr ''jdoe''), (''exp'', JInt 2200), (''user'', JObj [])]
                  (SECRET_KEY env0),
                httponly = True, secure = True, samesite = ''Lax'', max_age = 1200,
                path = ''/''\<rparr>]\<rparr>"
    using dispatch_renews[of "cookie_request (jwt_encode env0 session_claims (SECRET_KEY env0))"
        "jwt_encode env0 session_claims (SECRET_KEY env0)" env0 "2001 / 2" session_claims
        "JInt 1000" 1000 ok_handler] d
    by (simp add: cookie_request_def COOKIE_NAME_def TOKEN_RENEW_THRESHOLD_MINUTES_def
        ok_handler_def trunc_def)
       (simp add: session_claims_def)
  then show ?thesis
    using v
    by (simp add: token_expired_response_def claim_of_def jwt_encode_def dict_get_def)
       (simp add: session_claims_def)
qed

lemma early_decode:
  "jwt_decode env0 5000 (jwt_encode env0 early_claims (SECRET_KEY env0)) (SECRET_KEY env0) True =
     Inl JWTError"
proof -
  have "jws_verify env0 (jwt_encode env0 early_claims (SECRET_KEY env0)) (SECRET_KEY env0) =
          Inr early_claims"
    by (simp add: jws_verify_def jwt_encode_def)
  then show ?thesis
    by (simp add: jwt_decode_def)
       (simp add: validate_claims_def validate_iat_def validate_nbf_def int_claim_def
        early_claims_def)
qed

text \<open>
  At second 5000: no cookie, a forged token, a signed token not valid before second
  9000, and a signed token that expired at second 1000.
\<close>

theorem dispatch_outcomes_witness:
  "cookies \<lparr>cookies = (\<lambda>k. None)\<rparr> ''access_token'' = None
   \<and> dispatch env0 5000 ok_handler \<lparr>cookies = (\<lambda>k. None)\<rparr> = Inr (ok_handler \<lparr>cookies = (\<lambda>k. None)\<rparr>)
   \<and> cookies (cookie_request forged_token) ''access_token'' = Some forged_token
   \<and> jws_verify env0 forged_token (SECRET_KEY env0) = Inl JWTError
   \<and> dispatch env0 5000 ok_handler (cookie_request forged_token) =
       Inr (ok_handler (cookie_request forged_token))
   \<and> cookies (cookie_request (jwt_encode env0 early_claims (SECRET_KEY env0))) ''access_token'' =
       Some (jwt_encode env0 early_claims (SECRET_KEY env0))
   \<and> jwt_decode env0 5000 (jwt_encode env0 early_claims (SECRET_KEY env0)) (SECRET_KEY env0) True =
       Inl JWTError
   \<and> dispatch env0 5000 ok_handler
        (cookie_request (jwt_encode env0 early_claims (SECRET_KEY env0))) =
       Inr (ok_handler (cookie_request (jwt_encode env0 early_claims (SECRET_KEY env0))))
   \<and> cookies (cookie_request (jwt_encode env0 session_claims (SECRET_KEY env0))) ''access_token'' =
       Some (JWS ALGORITHM session_claims (hs256 env0 (SECRET_KEY env0) session_claims))
   \<and> validate_iat session_claims = Inr () \<and> validate_nbf 5000 session_claims = Inr ()
   \<and> map_of session_claims ''exp'' = Some (JInt 1000) \<and> int_claim (JInt 1000) = Inr 1000
   \<and> 1000 < \<lfloor>5000 :: real\<rfloor>
   \<and> dispatch env0 5000 ok_handler
        (cookie_request (jwt_encode env0 session_claims (SECRET_KEY env0))) =
       Inr token_expired_response"
proof -
  let ?r0 = "\<lparr>cookies = (\<lambda>k. None)\<rparr>"
  let ?t1 = "jwt_encode env0 early_claims (SECRET_KEY env0)"
  let ?r2 = "cookie_request (jwt_encode env0 session_claims (SECRET_KEY env0))"
  have a: "cookies ?r0 ''access_token'' = None"
    by simp
  have b: "cookies (cookie_request forged_token) ''access_token'' = Some forged_token
           \<and> jws_verify env0 forged_token (SECRET_KEY env0) = Inl JWTError"
    by (simp add: cookie_request_def COOKIE_NAME_def jws_verify_def forged_token_def env0_def)
  have b': "cookies (cookie_request ?t1) ''access_token'' = Some ?t1
           \<and> jwt_decode env0 5000 ?t1 (SECRET_KEY env0) True = Inl JWTError"
    by (simp add: cookie_request_def COOKIE_NAME_def early_decode)
  have c: "cookies ?r2 ''access_token'' =
             Some (JWS ALGORITHM session_claims (hs256 env0 (SECRET_KEY env0) session_claims))
           \<and> validate_iat session_claims = Inr () \<and> validate_nbf 5000 session_claims = Inr ()
           \<and> map_of session_claims ''exp'' = Some (JInt 1000) \<and> int_claim (JInt 1000) = Inr 1000
           \<and> 1000 < \<lfloor>5000 :: real\<rfloor>"
    by (simp add: cookie_request_def COOKIE_NAME_def jwt_encode_def validate_iat_def
        validate_nbf_def session_claims_def int_claim_def)
  from dispatch_outcomes[of ?r0 env0 5000 ok_handler forged_token JWTError session_claims
      "JInt 1000" 1000] a
  have 1: "dispatch env0 5000 ok_handler ?r0 = Inr (ok_handler ?r0)"
    by blast
  from dispatch_outcomes[of "cookie_request forged_token" env0 5000 ok_handler forged_token
      JWTError session_claims "JInt 1000" 1000] b
  have 2: "dispatch env0 5000 ok_handler (cookie_request forged_token) =
             Inr (ok_handler (cookie_request forged_token))"
    by blast
  from dispatch_outcomes[of "cookie_request ?t1" env0 5000 ok_handler ?t1
      JWTError session_claims "JInt 1000" 1000] b'
  have d2: "dispatch env0 5000 ok_handler (cookie_request ?t1) =
             Inr (ok_handler (cookie_request ?t1))"
    by blast
  from dispatch_outcomes[of ?r2 env0 5000 ok_handler forged_token JWTError session_claims
      "JInt 1000" 1000] c
  have 3: "dispatch env0 5000 ok_handler ?r2 = Inr token_expired_response"
    by blast
  from a b b' c 1 2 d2 3 show ?thesis
    by blast
qed

text \<open>
  At second 500 the signed token with \<^verbatim>\<open>exp\<close> 1000 is within the 15 minutes.
\<close>

theorem dispatch_renewal_frame_witness:
  "cookies (cookie_request (jwt_encode env0 session_claims (SECRET_KEY env0))) ''access_token'' =
     Some (jwt_encode env0 session_claims (SECRET_KEY env0))
   \<and> jwt_decode env0 500 (jwt_encode env0 session_claims (SECRET_KEY env0)) (SECRET_KEY env0) True =
       Inr session_claims
   \<and> map_of session_claims ''exp'' = Some (JInt 1000) \<and> py_num (JInt 1000) = Some 1000
   \<and> ((1000 :: real) - 500) / 60 \<le> of_int TOKEN_RENEW_THRESHOLD_MINUTES
   \<and> (\<exists>payload' c.
         dispatch env0 500 ok_handler
           (cookie_request (jwt_encode env0 session_claims (SECRET_KEY env0))) =
           Inr ((ok_handler (cookie_request (jwt_encode env0 session_claims (SECRET_KEY env0))))
                 \<lparr>resp_cookies :=
                    resp_cookies
                      (ok_handler (cookie_request (jwt_encode env0 session_claims (SECRET_KEY env0))))
                    @ [c]\<rparr>)
         \<and> cookie_value c = jwt_encode env0 payload' (SECRET_KEY env0)
         \<and> map_of payload' ''exp'' = Some (JInt (trunc (500 + 1200)))
         \<and> map_of payload' ''sub'' = map_of session_claims ''sub''
         \<and> map_of payload' ''user'' = map_of session_claims ''user''
         \<and> map fst payload' = map fst session_claims)"
proof -
  let ?t = "jwt_encode env0 session_claims (SECRET_KEY env0)"
  have a: "cookies (cookie_request ?t) ''access_token'' = Some ?t"
    by (simp add: cookie_request_def COOKIE_NAME_def)
  have v: "jws_verify env0 ?t (SECRET_KEY env0) = Inr session_claims"
    by (simp add: jws_verify_def jwt_encode_def)
  have d: "jwt_decode env0 500 ?t (SECRET_KEY env0) True = Inr session_claims"
    by (simp add: jwt_decode_def v)
       (simp add: validate_claims_def validate_iat_def validate_nbf_def
        validate_exp_def validate_aud_def validate_str_claim_def validate_at_hash_def
        int_claim_def session_claims_def)
  have e: "map_of session_claims ''exp'' = Some (JInt 1000)"
    by (simp add: session_claims_def)
  have n: "py_num (JInt 1000) = Some 1000"
    by simp
  have th: "((1000 :: real) - 500) / 60 \<le> of_int TOKEN_RENEW_THRESHOLD_MINUTES"
    by (simp add: TOKEN_RENEW_THRESHOLD_MINUTES_def)
  from dispatch_renewal_frame[OF a d e n th, of ok_handler] a d e n th show ?thesis
    by (simp only: simp_thms) (elim exE conjE, intro exI conjI, assumption+, simp_all)
qed

text \<open>
  A correctly signed token without \<^verbatim>\<open>exp\<close> is not passed through: the lookup
  \<^verbatim>\<open>payload["exp"]\<close> raises \<open>KeyError\<close>, which \<^verbatim>\<open>dispatch\<close> does not catch.
\<close>

lemma dispatch_missing_exp:
  assumes "cookies req ''access_token'' = Some t"
      and "jwt_decode e now t (SECRET_KEY e) True = Inr payload"
      and "map_of payload ''exp'' = None"
  shows "dispatch e now call_next req = Inl KeyError"
proof -
  from jwt_decode_Inr[OF assms(2)] have "t \<noteq> Unparsable []" by auto
  then show ?thesis
    using assms by (simp add: dispatch_def dispatch_try_def dict_item_def)
qed

section \<open>Roles\<close>

text \<open>
  C10. \<^verbatim>\<open>read_roles\<close> with account id 0, with \<^verbatim>\<open>None\<close> or with no account id returns
  the names of all roles.
\<close>

theorem read_roles_falsy_account_id:
  "read_roles db (Some 0) = map Role.name (role db)
   \<and> read_roles db None = map Role.name (role db)
   \<and> read_roles db (Some 0) = read_roles db None"
  by (simp add: read_roles_def)

lemma fold_max_ge: "(b::int) \<le> fold max ids b"
proof (induction ids arbitrary: b)
  case Nil
  then show ?case by simp
next
  case (Cons i ids)
  have "b \<le> max i b" by simp
  also have "\<dots> \<le> fold max ids (max i b)" by (rule Cons.IH)
  finally show ?case by simp
qed

lemma fold_max_upper: "i \<in> set ids \<Longrightarrow> (i::int) \<le> fold max ids b"
proof (induction ids arbitrary: b)
  case Nil
  then show ?case by simp
next
  case (Cons j ids)
  show ?case
  proof (cases "i \<in> set ids")
    case True
    then show ?thesis using Cons.IH by simp
  next
    case False
    with Cons.prems have "i = j" by simp
    then have "i \<le> max j b" by simp
    also have "\<dots> \<le> fold max ids (max j b)" by (rule fold_max_ge)
    finally show ?thesis by simp
  qed
qed

lemma next_id_fresh: "next_id ids \<notin> set ids"
proof
  assume "next_id ids \<in> set ids"
  then have "next_id ids \<le> fold max ids 0" by (rule fold_max_upper)
  then show False by (simp add: next_id_def)
qed

lemma ensure_existing:
  "assignments db a r = [rp] \<Longrightarrow>
     ensure_user_has_role db a r u = Inr (db, ''Role already assigned to user '' @ quoted u @ ''.'')"
  by (simp add: ensure_user_has_role_def assignments_def)

lemma ensure_once:
  assumes "length (assignments db a r) = 1"
  shows "ensure_user_has_role db a r u =
           Inr (db, ''Role already assigned to user '' @ quoted u @ ''.'')"
proof -
  from assms obtain rp where "assignments db a r = [rp]"
    by (cases "assignments db a r" rule: scalar_one_or_none.cases) simp_all
  then show ?thesis
    by (rule ensure_existing)
qed

lemma ensure_multiple:
  assumes "1 < length (assignments db a r)"
  shows "ensure_user_has_role db a r u = Inl MultipleResultsFound"
proof -
  from assms obtain x y zs where "assignments db a r = x # y # zs"
    by (cases "assignments db a r" rule: scalar_one_or_none.cases) simp_all
  then show ?thesis
    by (simp add: ensure_user_has_role_def assignments_def)
qed

lemma ensure_absent:
  assumes "assignments db a r = []"
      and "r \<in> Role.id ` set (role db)" and "a \<in> Account.id ` set (account db)"
  shows "ensure_user_has_role db a r u =
           Inr (db\<lparr>role_permission := role_permission db @
                     [\<lparr>RolePermission.id = next_id (map RolePermission.id (role_permission db)),
                       role_id = r, account_id = a\<rparr>]\<rparr>,
                ''Role successfully assigned to user '' @ quoted u @ ''.'')"
  using assms by (simp add: ensure_user_has_role_def assignments_def)

text \<open>
  C6, as the code has it. When the pair is stored once the grant is the no-op: it
  returns the unchanged database with the already-assigned message. When the pair is
  stored more than once it raises \<open>MultipleResultsFound\<close> and inserts nothing. When the
  pair is absent and both keys exist, the grant appends one assignment row for the pair,
  under a key not in use, and changes no other table, the audit log included; a second
  grant is then the no-op, and the pair has exactly one row.
\<close>

theorem ensure_user_has_role_grant:
  "(length (assignments db a r) = 1 \<longrightarrow>
      ensure_user_has_role db a r u
        = Inr (db, ''Role already assigned to user '' @ quoted u @ ''.''))
   \<and> (1 < length (assignments db a r) \<longrightarrow>
      ensure_user_has_role db a r u = Inl MultipleResultsFound)
   \<and> (assignments db a r = [] \<and> r \<in> Role.id ` set (role db) \<and> a \<in> Account.id ` set (account db)
      \<longrightarrow> (\<exists>db' new.
            ensure_user_has_role db a r u
              = Inr (db', ''Role successfully assigned to user '' @ quoted u @ ''.'')
            \<and> role_permission db' = role_permission db @ [new]
            \<and> RolePermission.account_id new = a \<and> RolePermission.role_id new = r
            \<and> RolePermission.id new \<notin> RolePermission.id ` set (role_permission db)
            \<and> role db' = role db \<and> account db' = account db
            \<and> log_role_permission db' = log_role_permission db
            \<and> assignments db' a r = [new]
            \<and> ensure_user_has_role db' a r u
                = Inr (db', ''Role already assigned to user '' @ quoted u @ ''.'')))"
proof (intro conjI impI)
  assume "length (assignments db a r) = 1"
  then show "ensure_user_has_role db a r u
        = Inr (db, ''Role already assigned to user '' @ quoted u @ ''.'')"
    by (rule ensure_once)
next
  assume "1 < length (assignments db a r)"
  then show "ensure_user_has_role db a r u = Inl MultipleResultsFound"
    by (rule ensure_multiple)
next
  assume h: "assignments db a r = [] \<and> r \<in> Role.id ` set (role db)
             \<and> a \<in> Account.id ` set (account db)"
  let ?new = "\<lparr>RolePermission.id = next_id (map RolePermission.id (role_permission db)),
               role_id = r, account_id = a\<rparr>"
  let ?db = "db\<lparr>role_permission := role_permission db @ [?new]\<rparr>"
  have 1: "ensure_user_has_role db a r u =
             Inr (?db, ''Role successfully assigned to user '' @ quoted u @ ''.'')"
    using h ensure_absent by blast
  have 2: "assignments ?db a r = [?new]"
    using h by (simp add: assignments_def)
  have 3: "ensure_user_has_role ?db a r u
             = Inr (?db, ''Role already assigned to user '' @ quoted u @ ''.'')"
    using 2 by (rule ensure_existing)
  have 4: "RolePermission.id ?new \<notin> RolePermission.id ` set (role_permission db)"
    using next_id_fresh[of "map RolePermission.id (role_permission db)"] by simp
  show "\<exists>db' new.
            ensure_user_has_role db a r u
              = Inr (db', ''Role successfully assigned to user '' @ quoted u @ ''.'')
            \<and> role_permission db' = role_permission db @ [new]
            \<and> RolePermission.account_id new = a \<and> RolePermission.role_id new = r
            \<and> RolePermission.id new \<notin> RolePermission.id ` set (role_permission db)
            \<and> role db' = role db \<and> account db' = account db
            \<and> log_role_permission db' = log_role_permission db
            \<and> assignments db' a r = [new]
            \<and> ensure_user_has_role db' a r u
                = Inr (db', ''Role already assigned to user '' @ quoted u @ ''.'')"
    using 1 2 3 4 by (intro exI[of _ ?db] exI[of _ ?new]) simp
qed

text \<open>
  C6 as stated fails: after a grant that inserted the assignment, the audit log is still
  empty.
\<close>

theorem grant_writes_no_audit_entry:
  "assignments db0 2 2 = []
   \<and> ensure_user_has_role db0 2 2 ''jdoe'' =
       Inr (db0\<lparr>role_permission := [\<lparr>RolePermission.id = 1, role_id = 2, account_id = 2\<rparr>]\<rparr>,
            ''Role successfully assigned to user '' @ quoted ''jdoe'' @ ''.'')
   \<and> log_role_permission
        (db0\<lparr>role_permission := [\<lparr>RolePermission.id = 1, role_id = 2, account_id = 2\<rparr>]\<rparr>) = []"
  by (simp add: ensure_user_has_role_def assignments_def db0_def next_id_def)

text \<open>
  The directory account 2 gets role 2, once; a second grant is the no-op; on a table
  that holds the pair twice the grant raises.
\<close>

theorem ensure_user_has_role_grant_witness:
  "assignments db0 2 2 = [] \<and> 2 \<in> Role.id ` set (role db0) \<and> 2 \<in> Account.id ` set (account db0)
   \<and> (\<exists>db' new.
         ensure_user_has_role db0 2 2 ''jdoe''
           = Inr (db', ''Role successfully assigned to user '' @ quoted ''jdoe'' @ ''.'')
         \<and> role_permission db' = role_permission db0 @ [new]
         \<and> log_role_permission db' = log_role_permission db0
         \<and> assignments db' 2 2 = [new])
   \<and> ensure_user_has_role db0 2 2 ''jdoe''
        = Inr (db1, ''Role successfully assigned to user '' @ quoted ''jdoe'' @ ''.'')
   \<and> length (assignments db1 2 2) = 1
   \<and> ensure_user_has_role db1 2 2 ''jdoe''
        = Inr (db1, ''Role already assigned to user '' @ quoted ''jdoe'' @ ''.'')
   \<and> 1 < length (assignments db2 2 2)
   \<and> ensure_user_has_role db2 2 2 ''jdoe'' = Inl MultipleResultsFound"
proof -
  have h: "assignments db0 2 2 = [] \<and> 2 \<in> Role.id ` set (role db0)
           \<and> 2 \<in> Account.id ` set (account db0)"
    by (simp add: assignments_def db0_def)
  have g: "ensure_user_has_role db0 2 2 ''jdoe''
        = Inr (db1, ''Role successfully assigned to user '' @ quoted ''jdoe'' @ ''.'')"
    by (simp add: ensure_user_has_role_def db0_def db1_def next_id_def)
  have one: "length (assignments db1 2 2) = 1"
    by (simp add: assignments_def db1_def)
  have two: "1 < length (assignments db2 2 2)"
    by (simp add: assignments_def db2_def)
  from ensure_user_has_role_grant[of db0 2 2 "''jdoe''"] h
  have e: "\<exists>db' new.
         ensure_user_has_role db0 2 2 ''jdoe''
           = Inr (db', ''Role successfully assigned to user '' @ quoted ''jdoe'' @ ''.'')
         \<and> role_permission db' = role_permission db0 @ [new]
         \<and> log_role_permission db' = log_role_permission db0
         \<and> assignments db' 2 2 = [new]"
    by blast
  from ensure_user_has_role_grant[of db1 2 2 "''jdoe''"] one
  have n: "ensure_user_has_role db1 2 2 ''jdoe''
        = Inr (db1, ''Role already assigned to user '' @ quoted ''jdoe'' @ ''.'')"
    by blast
  from ensure_user_has_role_grant[of db2 2 2 "''jdoe''"] two
  have m: "ensure_user_has_role db2 2 2 ''jdoe'' = Inl MultipleResultsFound"
    by blast
  from h e g one n two m show ?thesis
    by blast
qed











end
